theory Spec2Isabelle
  imports Complex_Main "HOL-Library.Product_Lexorder"
begin

chapter \<open>GoBuddy: the plan lifecycle subsystem\<close>

text \<open>
  A shallow embedding of the TypeScript services of GoBuddy that generate, edit, version
  and re-plan an itinerary, and of the booking state machine.

  Conventions of the embedding.
  \<^item> Ids (UUID strings in the source) are natural numbers. \<open>uuidv4()\<close> is a supply: an
    arbitrary function \<open>nat \<Rightarrow> nat\<close> together with the number of values drawn so far, so
    that every theorem holds for every sequence of generated ids.
  \<^item> A time of day (a zero-padded string \<open>HH:MM\<close> in the source) is the pair of its hour
    and its minute. String equality is equality of the pairs, and on zero-padded strings
    the source's string comparison is the lexicographic order of the pairs. The numbers
    are integers, as \<open>addMinutes\<close> with a negative argument produces negative ones.
  \<^item> Minute counts (\<open>duration_minutes\<close>) are integers.
  \<^item> A JavaScript \<open>Date\<close> inside one generated day is its number of minutes after the
    local midnight of that day (an integer; the zone has a fixed offset). Dates of the
    preferences are milliseconds since the epoch.
  \<^item> Money amounts are rationals.
  \<^item> Every \<open>throw\<close> is a value \<open>Inl e\<close> of a sum type.
  \<^item> Fields that no modelled function reads (descriptions, notes, creation stamps, the
    great-circle distance of a route segment, which is floating point) are left out.
\<close>

section \<open>Time of day\<close>

type_synonym uuid = nat
type_synonym time = "int \<times> int"

text \<open>\<open>addMinutes\<close> of the editor, the replan engine and the replan apply service (the three
  copies are the same code): it wraps silently at 24 hours.\<close>

text \<open>JavaScript's \<open>%\<close> takes the sign of the dividend.\<close>

definition js_rem :: "int \<Rightarrow> int \<Rightarrow> int" where
  "js_rem a b = sgn a * (\<bar>a\<bar> mod \<bar>b\<bar>)"

definition addMinutes :: "time \<Rightarrow> int \<Rightarrow> time" where
  "addMinutes timeStr minutes =
     (let totalMinutes = fst timeStr * 60 + snd timeStr + minutes;
          newHours = js_rem (totalMinutes div 60) 24;
          newMins = js_rem totalMinutes 60
      in (newHours, newMins))"

text \<open>The source compares times as strings (\<open>a < b\<close>, \<open>localeCompare\<close>).\<close>

definition time_less :: "time \<Rightarrow> time \<Rightarrow> bool" where
  "time_less a b = (fst a < fst b \<or> (fst a = fst b \<and> snd a < snd b))"

definition minutes_of :: "time \<Rightarrow> int" where
  "minutes_of t = fst t * 60 + snd t"

section \<open>The data model\<close>

datatype ItineraryItemType = Poi | Activity | Hotel | Transport | Meal | FreeTime

datatype TransportMode = Walking | Transit | Taxi | Drive

datatype Confidence = Fixed | Estimated

type_synonym Location = "real \<times> real"

record RouteSegment =
  from_item_id :: "uuid option"
  to_item_id :: uuid
  mode :: TransportMode
  route_duration_minutes :: int

record CostEstimate =
  amount :: rat
  currency :: string
  confidence :: Confidence

record ItineraryItem =
  item_id :: uuid
  trip_id :: uuid
  day :: nat
  item_type :: ItineraryItemType
  poi_id :: "uuid option"
  name :: string
  location :: "Location option"
  start_time :: time
  end_time :: time
  duration_minutes :: int
  is_pinned :: bool
  order_no :: nat
  route_from_previous :: "RouteSegment option"
  cost_estimate :: "CostEstimate option"

record Money =
  money_amount :: rat
  money_currency :: string

record ItineraryDay =
  day_no :: nat
  date :: int
  items :: "ItineraryItem list"
  total_travel_time_minutes :: int
  total_cost_estimate :: Money

record Itinerary =
  itinerary_id :: uuid
  itinerary_trip_id :: uuid
  days :: "ItineraryDay list"
  itinerary_total_cost :: Money
  version :: nat

record DayHours =
  opens :: "time option"
  closes :: "time option"
  is_closed :: bool

record PriceRange =
  price_min :: rat
  price_max :: rat
  price_currency :: string

record POI =
  poi_ident :: uuid
  poi_name :: string
  poi_location :: Location
  hours :: "(string \<Rightarrow> DayHours option) option"
  tags :: "string list"
  avg_duration_minutes :: int
  price_range :: "PriceRange option"

record TripPreferences =
  dates_start :: int
  dates_end :: int
  budget_currency :: string
  window_start :: time
  window_end :: time

text \<open>The errors the services throw: the application's error classes (utils/errors),
  JavaScript's own \<open>Error\<close>, \<open>RangeError\<close> and \<open>TypeError\<close>, and the errors of the
  database driver (a violated primary key, a violated \<open>NOT NULL\<close> or \<open>CHECK\<close> constraint
  of the named column; a query that fails because the store is unavailable).\<close>

datatype error =
    NotFoundError string
  | ValidationError string
  | ExternalServiceError string
  | PlainError string
  | RangeError
  | TypeError
  | DuplicateKey
  | NotNullViolation string
  | CheckViolation string
  | StoreFailure

section \<open>The generator (itinerary-generator.service.ts)\<close>

definition DEFAULT_BUFFER_MINUTES :: int where
  "DEFAULT_BUFFER_MINUTES = 15"

definition DEFAULT_TRAVEL_TIME_PLACEHOLDER :: int where
  "DEFAULT_TRAVEL_TIME_PLACEHOLDER = 20"

definition MS_PER_DAY :: int where
  "MS_PER_DAY = 1000 * 60 * 60 * 24"

text \<open>\<open>Math.ceil(a / b)\<close> on integers, for positive \<open>b\<close>.\<close>

definition ceil_div :: "int \<Rightarrow> int \<Rightarrow> int" where
  "ceil_div a b = - ((- a) div b)"

text \<open>The local calendar day of an instant, in a zone \<open>tz\<close> minutes east of UTC.\<close>

definition local_day :: "int \<Rightarrow> int \<Rightarrow> int" where
  "local_day tz ms = (ms + tz * 60000) div MS_PER_DAY"

text \<open>\<open>Date.getDay()\<close>: 1 January 1970 was a Thursday.\<close>

definition day_names :: "string list" where
  "day_names = [''sunday'', ''monday'', ''tuesday'', ''wednesday'', ''thursday'',
                ''friday'', ''saturday'']"

definition dayOfWeek :: "int \<Rightarrow> string" where
  "dayOfWeek d = day_names ! nat ((d + 4) mod 7)"

text \<open>\<open>parseTime(timeStr, baseDate)\<close> and \<open>setHours\<close>: minutes after the local midnight
  of the generated day. \<open>parseTime(timeStr)\<close> without a base date takes the current
  date instead: \<open>dd\<close> is the number of days from the generated day to today.\<close>

definition parseTime :: "time \<Rightarrow> int" where
  "parseTime t = fst t * 60 + snd t"

definition parseTime_today :: "int \<Rightarrow> time \<Rightarrow> int" where
  "parseTime_today dd t = dd * 1440 + parseTime t"

definition formatTime :: "int \<Rightarrow> time" where
  "formatTime m = ((m mod 1440) div 60, m mod 60)"

text \<open>The first loop of \<open>generateDayItems\<close>: pinned items are pushed as they are, and
  the cursor moves to the latest pinned end after it.\<close>

fun place_pinned :: "int \<Rightarrow> ItineraryItem list \<Rightarrow> int \<Rightarrow> int" where
  "place_pinned dd [] currentTime = currentTime"
| "place_pinned dd (pinnedItem # rest) currentTime =
     (let pinnedEnd = parseTime_today dd (end_time pinnedItem)
      in place_pinned dd rest (if pinnedEnd > currentTime then pinnedEnd else currentTime))"

definition poi_hours :: "POI \<Rightarrow> string \<Rightarrow> DayHours option" where
  "poi_hours poi dow = (case hours poi of None \<Rightarrow> None | Some h \<Rightarrow> h dow)"

definition hours_closed :: "DayHours option \<Rightarrow> bool" where
  "hours_closed h = (case h of None \<Rightarrow> False | Some d \<Rightarrow> is_closed d)"

definition hours_open :: "DayHours option \<Rightarrow> time option" where
  "hours_open h = (case h of None \<Rightarrow> None | Some d \<Rightarrow> opens d)"

definition hours_close :: "DayHours option \<Rightarrow> time option" where
  "hours_close h = (case h of None \<Rightarrow> None | Some d \<Rightarrow> closes d)"

definition poi_cost :: "POI \<Rightarrow> CostEstimate option" where
  "poi_cost poi =
     (case price_range poi of
        None \<Rightarrow> None
      | Some pr \<Rightarrow> Some \<lparr>amount = (price_min pr + price_max pr) / 2,
                          currency = price_currency pr, confidence = Estimated\<rparr>)"

definition after_close :: "DayHours option \<Rightarrow> int \<Rightarrow> bool" where
  "after_close h t = (case hours_close h of None \<Rightarrow> False | Some c \<Rightarrow> t > parseTime c)"

text \<open>A generated item carries the empty string as its trip id until it is saved.\<close>

definition NO_TRIP :: uuid where
  "NO_TRIP = 0"

text \<open>The second loop of \<open>generateDayItems\<close>. \<open>break\<close> returns what has been placed,
  \<open>continue\<close> goes on with the rest. \<open>n\<close> counts the ids drawn from the supply: a route
  segment draws one for its provisional \<open>to_item_id\<close>, also when the item is skipped
  afterwards.\<close>

fun place_pois ::
  "(nat \<Rightarrow> uuid) \<Rightarrow> nat \<Rightarrow> string \<Rightarrow> int \<Rightarrow> POI list \<Rightarrow> ItineraryItem list \<Rightarrow> int \<Rightarrow> nat
   \<Rightarrow> ItineraryItem list \<times> nat" where
  "place_pois new_uuid dayNum dow endTime [] its currentTime n = (its, n)"
| "place_pois new_uuid dayNum dow endTime (poi # rest) its currentTime n =
     (if currentTime \<ge> endTime then (its, n)
      else
        let h = poi_hours poi dow in
        if hours_closed h then place_pois new_uuid dayNum dow endTime rest its currentTime n
        else
          let itemStartTime =
                (case hours_open h of
                   None \<Rightarrow> currentTime
                 | Some opn \<Rightarrow> if parseTime opn > currentTime then parseTime opn else currentTime);
              duration = avg_duration_minutes poi;
              itemEndTime = itemStartTime + duration
          in
          if after_close h itemEndTime
          then place_pois new_uuid dayNum dow endTime rest its currentTime n
          else if itemEndTime > endTime then (its, n)
          else
            let prevLoc = (if its = [] then None else location (last its));
                routeFromPrevious =
                  (if prevLoc \<noteq> None
                   then Some \<lparr>from_item_id = Some (item_id (last its)), to_item_id = new_uuid n,
                              mode = Walking,
                              route_duration_minutes = DEFAULT_TRAVEL_TIME_PLACEHOLDER\<rparr>
                   else None);
                n1 = (if prevLoc \<noteq> None then n + 1 else n);
                itemStartTime2 =
                  (if prevLoc \<noteq> None
                   then itemStartTime + (DEFAULT_BUFFER_MINUTES + DEFAULT_TRAVEL_TIME_PLACEHOLDER)
                   else itemStartTime + DEFAULT_BUFFER_MINUTES);
                finalEndTime = itemStartTime2 + duration
            in
            if finalEndTime > endTime \<or> after_close h finalEndTime
            then place_pois new_uuid dayNum dow endTime rest its currentTime n1
            else
              let newId = new_uuid n1;
                  item = \<lparr>item_id = newId, trip_id = NO_TRIP, day = dayNum, item_type = Poi,
                          poi_id = Some (poi_ident poi), name = poi_name poi,
                          location = Some (poi_location poi),
                          start_time = formatTime itemStartTime2,
                          end_time = formatTime finalEndTime,
                          duration_minutes = duration, is_pinned = False,
                          order_no = length its,
                          route_from_previous =
                            map_option (\<lambda>r. r\<lparr>to_item_id := newId\<rparr>) routeFromPrevious,
                          cost_estimate = poi_cost poi\<rparr>
              in place_pois new_uuid dayNum dow endTime rest (its @ [item]) finalEndTime (n1 + 1))"

text \<open>\<open>generateDayItems\<close>: \<open>ld\<close> is the local calendar day of the generated date and
  \<open>today\<close> the local calendar day of the call.\<close>

definition generateDayItems ::
  "(nat \<Rightarrow> uuid) \<Rightarrow> nat \<Rightarrow> int \<Rightarrow> nat \<Rightarrow> int \<Rightarrow> POI list \<Rightarrow> TripPreferences \<Rightarrow> ItineraryItem list
   \<Rightarrow> ItineraryItem list \<times> nat" where
  "generateDayItems new_uuid n today dayNum ld pois preferences pinnedItems =
     (let currentTime = parseTime (window_start preferences);
          endTime = parseTime (window_end preferences);
          currentTime2 = place_pinned (today - ld) pinnedItems currentTime
      in place_pois new_uuid dayNum (dayOfWeek ld) endTime pois pinnedItems currentTime2 n)"

definition calculateDayTravelTime :: "ItineraryItem list \<Rightarrow> int" where
  "calculateDayTravelTime its =
     foldl (\<lambda>sum item. sum + (case route_from_previous item of
                                 None \<Rightarrow> 0 | Some r \<Rightarrow> route_duration_minutes r)) 0 its"

definition calculateDayCost :: "ItineraryItem list \<Rightarrow> string \<Rightarrow> Money" where
  "calculateDayCost its cur =
     \<lparr>money_amount = foldl (\<lambda>sum item. sum + (case cost_estimate item of
                                                None \<Rightarrow> 0 | Some c \<Rightarrow> amount c)) 0 its,
      money_currency = cur\<rparr>"

definition calculateTotalCost :: "ItineraryDay list \<Rightarrow> string \<Rightarrow> Money" where
  "calculateTotalCost ds cur =
     \<lparr>money_amount = foldl (\<lambda>sum d. sum + money_amount (total_cost_estimate d)) 0 ds,
      money_currency = cur\<rparr>"

text \<open>\<open>extractPinnedItems\<close>: a map from the day number to the pinned items of that day
  (a day without pinned items has no entry; \<open>pinnedItems.get(dayNum) || []\<close> reads it).\<close>

definition extractPinnedItems :: "Itinerary \<Rightarrow> nat \<Rightarrow> ItineraryItem list" where
  "extractPinnedItems itinerary dayNum =
     (case filter (\<lambda>d. day_no d = dayNum \<and> filter is_pinned (items d) \<noteq> []) (days itinerary) of
        [] \<Rightarrow> []
      | ds \<Rightarrow> filter is_pinned (items (last ds)))"

text \<open>\<open>distributePOIs\<close>: round robin, bucket \<open>i\<close> takes the POIs whose index is \<open>i\<close>
  modulo the number of days.\<close>

definition bucket :: "POI list \<Rightarrow> nat \<Rightarrow> nat \<Rightarrow> POI list" where
  "bucket pois numDays i =
     map snd (filter (\<lambda>(index, poi). index mod numDays = i) (zip [0 ..< length pois] pois))"

definition distributePOIs :: "POI list \<Rightarrow> int \<Rightarrow> error + POI list list" where
  "distributePOIs pois numDays =
     (if numDays < 0 then Inl RangeError
      else if numDays = 0 \<and> pois \<noteq> [] then Inl TypeError
      else Inr (map (bucket pois (nat numDays)) [0 ..< nat numDays]))"

text \<open>The loop of \<open>generateDays\<close> over \<open>dayNum = 1 .. numDays\<close>.\<close>

fun generate_each ::
  "(nat \<Rightarrow> uuid) \<Rightarrow> int \<Rightarrow> int \<Rightarrow> TripPreferences \<Rightarrow> (nat \<Rightarrow> ItineraryItem list) \<Rightarrow> nat
   \<Rightarrow> POI list list \<Rightarrow> nat \<Rightarrow> ItineraryDay list \<times> nat" where
  "generate_each new_uuid tz today preferences pinned dayNum [] n = ([], n)"
| "generate_each new_uuid tz today preferences pinned dayNum (dayPOIs # buckets) n =
     (let ld = local_day tz (dates_start preferences) + int dayNum - 1;
          (dayItems, n1) = generateDayItems new_uuid n today dayNum ld dayPOIs preferences
                             (pinned dayNum);
          d = \<lparr>day_no = dayNum,
               date = dates_start preferences div MS_PER_DAY + int dayNum - 1,
               items = dayItems,
               total_travel_time_minutes = calculateDayTravelTime dayItems,
               total_cost_estimate = calculateDayCost dayItems (budget_currency preferences)\<rparr>;
          (ds, n2) = generate_each new_uuid tz today preferences pinned (dayNum + 1) buckets n1
      in (d # ds, n2))"

definition generateDays ::
  "(nat \<Rightarrow> uuid) \<Rightarrow> nat \<Rightarrow> int \<Rightarrow> int \<Rightarrow> POI list \<Rightarrow> TripPreferences \<Rightarrow> Itinerary option \<Rightarrow> bool
   \<Rightarrow> error + (ItineraryDay list \<times> nat)" where
  "generateDays new_uuid n tz today pois preferences existingItinerary preservePinned =
     (let numDays = ceil_div (dates_end preferences - dates_start preferences) MS_PER_DAY;
          pinnedItems =
            (case existingItinerary of
               Some ex \<Rightarrow> if preservePinned then extractPinnedItems ex else (\<lambda>_. [])
             | None \<Rightarrow> (\<lambda>_. []))
      in case distributePOIs pois numDays of
           Inl e \<Rightarrow> Inl e
         | Inr poisPerDay \<Rightarrow>
             Inr (generate_each new_uuid tz today preferences pinnedItems 1 poisPerDay n))"

text \<open>The inputs of end-to-end scenario 1 of the specification: 2025-03-01 is day 20148
  after the epoch; both POIs keep the same hours all week.\<close>

definition example_poi_A :: "Location \<Rightarrow> POI" where
  "example_poi_A loc =
     \<lparr>poi_ident = 100, poi_name = ''A'', poi_location = loc,
      hours = Some (\<lambda>_. Some \<lparr>opens = Some (9, 0), closes = Some (17, 0), is_closed = False\<rparr>),
      tags = [], avg_duration_minutes = 120,
      price_range = Some \<lparr>price_min = 500, price_max = 500, price_currency = ''THB''\<rparr>\<rparr>"

definition example_poi_B :: "Location \<Rightarrow> POI" where
  "example_poi_B loc =
     \<lparr>poi_ident = 101, poi_name = ''B'', poi_location = loc,
      hours = Some (\<lambda>_. Some \<lparr>opens = Some (9, 0), closes = Some (18, 0), is_closed = False\<rparr>),
      tags = [], avg_duration_minutes = 90,
      price_range = Some \<lparr>price_min = 200, price_max = 200, price_currency = ''THB''\<rparr>\<rparr>"

definition example_preferences :: TripPreferences where
  "example_preferences =
     \<lparr>dates_start = 20148 * MS_PER_DAY, dates_end = 20149 * MS_PER_DAY,
      budget_currency = ''THB'', window_start = (10, 0), window_end = (20, 0)\<rparr>"

text \<open>What a day shows to the user: its number, the name and the times of each item in
  order, and the day's cost.\<close>

definition slots :: "ItineraryDay \<Rightarrow> (string \<times> time \<times> time) list" where
  "slots d = map (\<lambda>i. (name i, start_time i, end_time i)) (items d)"

definition day_summary :: "ItineraryDay \<Rightarrow> nat \<times> (string \<times> time \<times> time) list \<times> rat" where
  "day_summary d = (day_no d, slots d, money_amount (total_cost_estimate d))"

definition generated_days :: "error + (ItineraryDay list \<times> nat) \<Rightarrow> error + ItineraryDay list" where
  "generated_days r = (case r of Inl e \<Rightarrow> Inl e | Inr (ds, n) \<Rightarrow> Inr ds)"

section \<open>Bookings (booking.service.ts, booking-orchestrator.service.ts)\<close>

text \<open>
  The booking tables are lists of rows in insertion order, with the constraints of
  \<open>004_booking_schema.sql\<close> that a statement of the services can violate: an \<open>INSERT\<close>
  into \<open>bookings\<close> is rejected when \<open>provider_type\<close> is null (the column is \<open>NOT NULL\<close>
  and has no default) or not one of the three provider types, and when the booking id is
  already present; an \<open>INSERT\<close> into \<open>booking_idempotency\<close> is rejected when the key is
  already present. The constraints are checked in this order, the column constraints
  before the primary key. The JSON columns the services copy through unread (traveller
  details, contact information, metadata, policies) are strings.
\<close>

datatype BookingStatus = Pending | Confirmed | Failed | Canceled | Refunded

datatype ConfirmationNumber = Temporary uuid | Provided string

record Booking =
  booking_id :: uuid
  booking_trip_id :: uuid
  itinerary_item_id :: "uuid option"
  provider_id :: string
  provider_type :: "string option"
  external_booking_id :: string
  status :: BookingStatus
  price :: Money
  policies :: string
  voucher_url :: "string option"
  voucher_data :: "string option"
  confirmation_number :: ConfirmationNumber
  traveler_details :: string
  booking_date :: string
  booking_time :: "string option"
  contact_info :: string
  metadata :: "string option"

record BookingStateHistory =
  history_booking_id :: uuid
  from_status :: "BookingStatus option"
  to_status :: BookingStatus
  history_reason :: "string option"
  changed_by :: "string option"

record CreateBookingRequest =
  req_itinerary_item_id :: "uuid option"
  req_provider_id :: string
  req_provider_option_id :: string
  req_traveler_details :: string
  req_contact_info :: string
  req_booking_date :: string
  req_booking_time :: "string option"
  idempotency_key :: string
  req_metadata :: "string option"

record BookingUpdates =
  upd_external_booking_id :: "string option"
  upd_price :: "Money option"
  upd_policies :: "string option"
  upd_voucher_url :: "string option"
  upd_voucher_data :: "string option"
  upd_confirmation_number :: "string option"

record booking_db =
  bookings :: "Booking list"
  booking_state_history :: "BookingStateHistory list"
  booking_idempotency :: "(string \<times> uuid) list"
  booking_uuids :: "nat \<Rightarrow> uuid"
  booking_uuids_drawn :: nat

text \<open>\<open>validateStateTransition\<close>: the table of the source, keyed by the current status
  (\<open>None\<close> is the key \<open>'null'\<close>).\<close>

definition validTransitions :: "BookingStatus option \<Rightarrow> BookingStatus list" where
  "validTransitions fromStatus =
     (case fromStatus of
        None \<Rightarrow> [Pending]
      | Some Pending \<Rightarrow> [Confirmed, Failed]
      | Some Confirmed \<Rightarrow> [Canceled, Refunded]
      | Some Failed \<Rightarrow> [Pending]
      | Some Canceled \<Rightarrow> [Refunded]
      | Some Refunded \<Rightarrow> [])"

definition status_name :: "BookingStatus \<Rightarrow> string" where
  "status_name s =
     (case s of Pending \<Rightarrow> ''pending'' | Confirmed \<Rightarrow> ''confirmed'' | Failed \<Rightarrow> ''failed''
      | Canceled \<Rightarrow> ''canceled'' | Refunded \<Rightarrow> ''refunded'')"

definition transition_message :: "BookingStatus option \<Rightarrow> BookingStatus \<Rightarrow> string" where
  "transition_message fromStatus toStatus =
     ''Invalid state transition from '' @
     (case fromStatus of None \<Rightarrow> ''null'' | Some s \<Rightarrow> status_name s) @ '' to '' @
     status_name toStatus"

definition validateStateTransition :: "BookingStatus option \<Rightarrow> BookingStatus \<Rightarrow> error + unit" where
  "validateStateTransition fromStatus toStatus =
     (if toStatus \<in> set (validTransitions fromStatus) then Inr ()
      else Inl (ValidationError (transition_message fromStatus toStatus)))"

definition is_ValidationError :: "error + 'a \<Rightarrow> bool" where
  "is_ValidationError r = (case r of Inl (ValidationError msg) \<Rightarrow> True | _ \<Rightarrow> False)"

definition getBookingById :: "booking_db \<Rightarrow> uuid \<Rightarrow> error + Booking" where
  "getBookingById db bookingId =
     (case filter (\<lambda>b. booking_id b = bookingId) (bookings db) of
        [] \<Rightarrow> Inl (NotFoundError ''Booking'')
      | row # _ \<Rightarrow> Inr row)"

text \<open>\<open>getBookingByIdempotencyKey\<close>: the join of \<open>bookings\<close> with \<open>booking_idempotency\<close>
  on the booking id, restricted to the key; the first row, if any.\<close>

definition getBookingByIdempotencyKey :: "booking_db \<Rightarrow> string \<Rightarrow> Booking option" where
  "getBookingByIdempotencyKey db key =
     (case concat (map (\<lambda>b. map (\<lambda>bi. b)
                     (filter (\<lambda>bi. snd bi = booking_id b \<and> fst bi = key) (booking_idempotency db)))
                   (bookings db)) of
        [] \<Rightarrow> None
      | row # _ \<Rightarrow> Some row)"

definition addStateHistory ::
  "booking_db \<Rightarrow> uuid \<Rightarrow> BookingStatus option \<Rightarrow> BookingStatus \<Rightarrow> string option \<Rightarrow> string option
   \<Rightarrow> booking_db" where
  "addStateHistory db bookingId fromStatus toStatus reason changedBy =
     db\<lparr>booking_state_history := booking_state_history db @
          [\<lparr>history_booking_id = bookingId, from_status = fromStatus, to_status = toStatus,
            history_reason = reason, changed_by = changedBy\<rparr>]\<rparr>"

text \<open>\<open>reason || null\<close> and the like: an empty string counts as absent.\<close>

definition truthy :: "string option \<Rightarrow> string option" where
  "truthy s = (case s of None \<Rightarrow> None | Some v \<Rightarrow> if v = [] then None else Some v)"

text \<open>The row that \<open>createBooking\<close> inserts: status \<open>pending\<close>, placeholders for the
  external id, the price and the policies, a temporary confirmation number cut from a
  second generated id. The column list of the \<open>INSERT\<close> has fourteen columns and
  \<open>provider_type\<close> is not one of them: the row has no value for it.\<close>

definition pending_row :: "uuid \<Rightarrow> uuid \<Rightarrow> uuid \<Rightarrow> CreateBookingRequest \<Rightarrow> Booking" where
  "pending_row bookingId confirmation tripId request =
     \<lparr>booking_id = bookingId, booking_trip_id = tripId,
      itinerary_item_id = req_itinerary_item_id request,
      provider_id = req_provider_id request, provider_type = None,
      external_booking_id = ''pending'', status = Pending,
      price = \<lparr>money_amount = 0, money_currency = ''THB''\<rparr>,
      policies = [], voucher_url = None, voucher_data = None,
      confirmation_number = Temporary confirmation,
      traveler_details = req_traveler_details request,
      booking_date = req_booking_date request,
      booking_time = truthy (req_booking_time request),
      contact_info = req_contact_info request,
      metadata = req_metadata request\<rparr>"

text \<open>\<open>INSERT INTO bookings\<close>, with the constraints of the table.\<close>

definition PROVIDER_TYPES :: "string list" where
  "PROVIDER_TYPES = [''activity'', ''hotel'', ''transport'']"

definition insert_booking :: "booking_db \<Rightarrow> Booking \<Rightarrow> error + booking_db" where
  "insert_booking db row =
     (case provider_type row of
        None \<Rightarrow> Inl (NotNullViolation ''provider_type'')
      | Some t \<Rightarrow>
          if t \<notin> set PROVIDER_TYPES then Inl (CheckViolation ''provider_type'')
          else if booking_id row \<in> booking_id ` set (bookings db) then Inl DuplicateKey
          else Inr (db\<lparr>bookings := bookings db @ [row]\<rparr>))"

text \<open>\<open>BookingService.createBooking\<close>. The result is the outcome together with the store
  as the call leaves it: nothing is rolled back when a later statement fails.\<close>

definition createBooking ::
  "booking_db \<Rightarrow> uuid \<Rightarrow> CreateBookingRequest \<Rightarrow> string option \<Rightarrow> (error + Booking) \<times> booking_db" where
  "createBooking db tripId request userId =
     (case getBookingByIdempotencyKey db (idempotency_key request) of
        Some existing \<Rightarrow> (Inr existing, db)
      | None \<Rightarrow>
          (case validateStateTransition None Pending of
             Inl e \<Rightarrow> (Inl e, db)
           | Inr _ \<Rightarrow>
               let bookingId = booking_uuids db (booking_uuids_drawn db);
                   confirmation = booking_uuids db (booking_uuids_drawn db + 1);
                   db1 = db\<lparr>booking_uuids_drawn := booking_uuids_drawn db + 2\<rparr>
               in
               case insert_booking db1 (pending_row bookingId confirmation tripId request) of
                 Inl e \<Rightarrow> (Inl e, db1)
               | Inr db2 \<Rightarrow>
                   let db3 = addStateHistory db2 bookingId None Pending (Some ''Booking created'')
                               (truthy userId)
                   in
                   if idempotency_key request \<in> fst ` set (booking_idempotency db3)
                   then (Inl DuplicateKey, db3)
                   else
                     let db4 = db3\<lparr>booking_idempotency := booking_idempotency db3 @
                                     [(idempotency_key request, bookingId)]\<rparr>
                     in (getBookingById db4 bookingId, db4)))"

text \<open>The \<open>UPDATE\<close> of \<open>updateBookingStatus\<close>: the status always, each other column only
  when the caller's value is truthy.\<close>

definition apply_updates :: "BookingStatus \<Rightarrow> BookingUpdates option \<Rightarrow> Booking \<Rightarrow> Booking" where
  "apply_updates newStatus updates b =
     (let u = (case updates of
                 None \<Rightarrow> \<lparr>upd_external_booking_id = None, upd_price = None, upd_policies = None,
                           upd_voucher_url = None, upd_voucher_data = None,
                           upd_confirmation_number = None\<rparr>
               | Some v \<Rightarrow> v)
      in b\<lparr>status := newStatus,
            external_booking_id :=
              (case truthy (upd_external_booking_id u) of None \<Rightarrow> external_booking_id b | Some v \<Rightarrow> v),
            price := (case upd_price u of None \<Rightarrow> price b | Some v \<Rightarrow> v),
            policies := (case upd_policies u of None \<Rightarrow> policies b | Some v \<Rightarrow> v),
            voucher_url :=
              (case truthy (upd_voucher_url u) of None \<Rightarrow> voucher_url b | Some v \<Rightarrow> Some v),
            voucher_data :=
              (case truthy (upd_voucher_data u) of None \<Rightarrow> voucher_data b | Some v \<Rightarrow> Some v),
            confirmation_number :=
              (case truthy (upd_confirmation_number u) of
                 None \<Rightarrow> confirmation_number b | Some v \<Rightarrow> Provided v)\<rparr>)"

definition updateBookingStatus ::
  "booking_db \<Rightarrow> uuid \<Rightarrow> BookingStatus \<Rightarrow> string option \<Rightarrow> string option \<Rightarrow> BookingUpdates option
   \<Rightarrow> (error + Booking) \<times> booking_db" where
  "updateBookingStatus db bookingId newStatus reason updatedBy updates =
     (case getBookingById db bookingId of
        Inl e \<Rightarrow> (Inl e, db)
      | Inr booking \<Rightarrow>
          (case validateStateTransition (Some (status booking)) newStatus of
             Inl e \<Rightarrow> (Inl e, db)
           | Inr _ \<Rightarrow>
               let db1 = db\<lparr>bookings :=
                            map (\<lambda>b. if booking_id b = bookingId
                                      then apply_updates newStatus updates b else b) (bookings db)\<rparr>;
                   db2 = addStateHistory db1 bookingId (Some (status booking)) newStatus
                           (truthy reason) (truthy updatedBy)
               in (getBookingById db2 bookingId, db2)))"

text \<open>The provider registry and the one capability of an adapter that \<open>cancelBooking\<close>
  uses: the call of the provider either returns or throws.\<close>

record ProviderAdapter =
  provider_cancelBooking :: "string \<Rightarrow> error + unit"

text \<open>\<open>BookingOrchestratorService.cancelBooking\<close>. The guard on the status stands before
  the \<open>try\<close> block and throws a plain \<open>Error\<close>; everything thrown inside the block is
  wrapped into an \<open>ExternalServiceError\<close>.\<close>

definition cancelBooking ::
  "(string \<Rightarrow> ProviderAdapter option) \<Rightarrow> booking_db \<Rightarrow> uuid \<Rightarrow> string option \<Rightarrow> string option
   \<Rightarrow> (error + Booking) \<times> booking_db" where
  "cancelBooking getProvider db bookingId reason userId =
     (case getBookingById db bookingId of
        Inl e \<Rightarrow> (Inl e, db)
      | Inr booking \<Rightarrow>
          if status booking \<noteq> Confirmed
          then (Inl (PlainError ''Can only cancel confirmed bookings''), db)
          else
            (case (case getProvider (provider_id booking) of
                     None \<Rightarrow> Inr ()
                   | Some provider \<Rightarrow> provider_cancelBooking provider (external_booking_id booking)) of
               Inl e \<Rightarrow> (Inl (ExternalServiceError ''Failed to cancel booking''), db)
             | Inr _ \<Rightarrow>
                 (case updateBookingStatus db bookingId Canceled
                         (Some (case truthy reason of None \<Rightarrow> ''Booking canceled by user'' | Some r \<Rightarrow> r))
                         (Some (case truthy userId of None \<Rightarrow> ''system'' | Some u \<Rightarrow> u)) None of
                    (Inl e, db1) \<Rightarrow> (Inl (ExternalServiceError ''Failed to cancel booking''), db1)
                  | (Inr _, db1) \<Rightarrow>
                      (case getBookingById db1 bookingId of
                         Inl e \<Rightarrow> (Inl (ExternalServiceError ''Failed to cancel booking''), db1)
                       | Inr b \<Rightarrow> (Inr b, db1)))))"

text \<open>The edges of the transition graph of the specification.\<close>

definition transition_graph :: "(BookingStatus option \<times> BookingStatus) set" where
  "transition_graph =
     {(None, Pending),
      (Some Pending, Confirmed), (Some Pending, Failed),
      (Some Failed, Pending),
      (Some Confirmed, Canceled), (Some Confirmed, Refunded),
      (Some Canceled, Refunded)}"

text \<open>A store with one booking in the given status, for the concrete cases below.\<close>

definition example_booking :: "BookingStatus \<Rightarrow> Booking" where
  "example_booking st =
     \<lparr>booking_id = 7, booking_trip_id = 1, itinerary_item_id = None,
      provider_id = ''stub-activity'', provider_type = Some ''activity'',
      external_booking_id = ''EXT-1'', status = st,
      price = \<lparr>money_amount = 100, money_currency = ''THB''\<rparr>, policies = [],
      voucher_url = None, voucher_data = None, confirmation_number = Provided ''C1'',
      traveler_details = [], booking_date = ''2025-03-01'', booking_time = None,
      contact_info = [], metadata = None\<rparr>"

definition example_booking_db :: "BookingStatus \<Rightarrow> booking_db" where
  "example_booking_db st =
     \<lparr>bookings = [example_booking st],
      booking_state_history =
        [\<lparr>history_booking_id = 7, from_status = None, to_status = Pending,
          history_reason = Some ''Booking created'', changed_by = None\<rparr>],
      booking_idempotency = [(''K0'', 7)],
      booking_uuids = (\<lambda>n. 100 + n), booking_uuids_drawn = 0\<rparr>"

definition example_request :: "CreateBookingRequest" where
  "example_request =
     \<lparr>req_itinerary_item_id = None, req_provider_id = ''stub-activity'',
      req_provider_option_id = ''opt-1'', req_traveler_details = [], req_contact_info = [],
      req_booking_date = ''2025-03-01'', req_booking_time = None, idempotency_key = ''K1'',
      req_metadata = None\<rparr>"

section \<open>The plan store\<close>

text \<open>
  The tables the plan services read and write are lists of rows in insertion order, with
  the constraints of the migrations that a statement of the services can violate. An
  \<open>INSERT\<close> into \<open>itinerary_versions\<close> is rejected when its change type is not one that
  the \<open>CHECK\<close> on \<open>change_type\<close> lists (\<open>001_initial_schema.sql\<close>: \<open>generate\<close>, \<open>edit\<close>,
  \<open>reorder\<close>, \<open>add\<close>, \<open>remove\<close>, \<open>pin\<close>, \<open>unpin\<close>, \<open>time_change\<close>, as in the type
  \<open>ChangeType\<close> of \<open>types/version.ts\<close>), and when its id is already present; an \<open>INSERT\<close>
  into \<open>itinerary_items\<close> is rejected when its id is already present; \<open>itineraries\<close> has
  one row per trip. The change type \<open>replan\<close>, which \<open>applyProposal\<close> passes to
  \<open>createSnapshot\<close>, is a value of the model because the code passes it; the table does
  not take it. The Redis cache in front of the POI table is not modelled.
\<close>

datatype ChangeType =
  Generate | Edit | Reorder | Add | Remove | Pin | Unpin | TimeChange | Replan

datatype EventType = Weather | Closure | SoldOut | Delay | AvailabilityChanged

datatype Level = Low | Medium | High

type_synonym EventSeverity = Level
type_synonym Priority = Level

record Trip =
  trip_ident :: uuid
  user_id :: "string option"
  guest_session_id :: "string option"

record ItineraryRow =
  row_id :: uuid
  row_trip_id :: uuid
  row_version :: nat

record ItineraryVersion =
  version_id :: uuid
  version_trip_id :: uuid
  version_no :: nat
  change_type :: ChangeType
  version_changed_by :: "string option"
  snapshot_days :: "ItineraryDay list"
  snapshot_total :: Money

record NewItem =
  new_id :: uuid
  new_name :: string
  new_poi_id :: "uuid option"
  new_start_time :: time
  new_end_time :: time
  new_location :: "Location option"

record ReplacedItem =
  old_item_id :: uuid
  old_item_name :: string
  new_item :: NewItem

record MovedItem =
  moved_item_id :: uuid
  old_day :: nat
  new_day :: nat
  old_time :: time
  new_time :: time

record RemovedItem =
  removed_item_id :: uuid
  removed_name :: string
  removed_reason :: string

record AddedItem =
  added_id :: uuid
  added_name :: string
  added_poi_id :: "uuid option"
  added_day :: nat
  added_start_time :: time
  added_end_time :: time

record ProposalChanges =
  replaced_items :: "ReplacedItem list"
  moved_items :: "MovedItem list"
  removed_items :: "RemovedItem list"
  added_items :: "AddedItem list"

record ReplanProposal =
  proposal_id :: uuid
  proposal_trip_id :: uuid
  trigger_id :: "uuid option"
  changes :: ProposalChanges

record ReplanApplication =
  application_id :: uuid
  application_trip_id :: uuid
  application_proposal_id :: uuid
  applied_version :: nat
  rollback_available_until :: int
  rolled_back :: bool

record ReplanTrigger =
  trigger_ident :: uuid
  trigger_trip_id :: uuid
  event_signal_id :: uuid
  trigger_reason :: string
  priority :: Priority
  processed :: bool

record EventSignal =
  event_id :: uuid
  event_trip_id :: uuid
  event_type :: EventType
  severity :: EventSeverity
  event_location :: Location
  time_slot :: "int \<times> int"
  event_details :: string
  affected_items :: "uuid list"
  event_processed :: bool
  replan_triggered :: bool

record tables =
  trips :: "Trip list"
  trip_preferences :: "(uuid \<times> TripPreferences) list"
  pois :: "POI list"
  itineraries :: "ItineraryRow list"
  itinerary_items :: "ItineraryItem list"
  itinerary_versions :: "ItineraryVersion list"
  replan_proposals :: "ReplanProposal list"
  replan_applications :: "ReplanApplication list"
  replan_triggers :: "ReplanTrigger list"
  event_signals :: "EventSignal list"

text \<open>
  The world of one request: the tables of the database (\<open>store\<close>); the forced failure of
  the store (\<open>fail_in = Some k\<close>: the query after \<open>k\<close> more queries fails, once); the supply
  of \<open>uuidv4()\<close>; the clock (milliseconds since the epoch) and the offset of the local zone
  (minutes east of UTC).
\<close>

record world =
  store :: tables
  fail_in :: "nat option"
  uuids :: "nat \<Rightarrow> uuid"
  uuids_drawn :: nat
  clock :: int
  tz_offset :: int

subsection \<open>Asynchronous code: state and exceptions\<close>

type_synonym 'a io = "world \<Rightarrow> (error + 'a) \<times> world"

definition io_return :: "'a \<Rightarrow> 'a io" where
  "io_return x w = (Inr x, w)"

definition io_throw :: "error \<Rightarrow> 'a io" where
  "io_throw e w = (Inl e, w)"

definition io_bind :: "'a io \<Rightarrow> ('a \<Rightarrow> 'b io) \<Rightarrow> 'b io" where
  "io_bind m f w = (case m w of (Inl e, w1) \<Rightarrow> (Inl e, w1) | (Inr x, w1) \<Rightarrow> f x w1)"

definition io_catch :: "'a io \<Rightarrow> (error \<Rightarrow> 'a io) \<Rightarrow> 'a io" where
  "io_catch m h w = (case m w of (Inl e, w1) \<Rightarrow> h e w1 | (Inr x, w1) \<Rightarrow> (Inr x, w1))"

text \<open>\<open>promise.catch(() => undefined)\<close>.\<close>

definition io_option :: "'a io \<Rightarrow> 'a option io" where
  "io_option m w = (case m w of (Inl e, w1) \<Rightarrow> (Inr None, w1) | (Inr x, w1) \<Rightarrow> (Inr (Some x), w1))"

definition uuidv4 :: "uuid io" where
  "uuidv4 w = (Inr (uuids w (uuids_drawn w)), w\<lparr>uuids_drawn := Suc (uuids_drawn w)\<rparr>)"

subsection \<open>Queries\<close>

text \<open>\<open>query(text, params)\<close> is \<open>pool.query(text, params)\<close>: the pool runs the statement on
  one of its connections and takes the connection back. No transaction is open on a
  connection unless a \<open>BEGIN\<close> has been sent, so the statement is committed as it runs: it
  reads and writes the tables of the database. The forced failure, if it is due, throws
  and changes nothing.\<close>

definition query :: "(tables \<Rightarrow> error + 'a \<times> tables) \<Rightarrow> 'a io" where
  "query stmt w =
     (if fail_in w = Some 0 then (Inl StoreFailure, w\<lparr>fail_in := None\<rparr>)
      else
        let w1 = w\<lparr>fail_in := map_option (\<lambda>k. k - 1) (fail_in w)\<rparr>
        in case stmt (store w1) of
             Inl e \<Rightarrow> (Inl e, w1)
           | Inr (r, t) \<Rightarrow> (Inr r, w1\<lparr>store := t\<rparr>))"

definition select :: "(tables \<Rightarrow> 'a) \<Rightarrow> 'a io" where
  "select f = query (\<lambda>t. Inr (f t, t))"

definition execute :: "(tables \<Rightarrow> tables) \<Rightarrow> unit io" where
  "execute f = query (\<lambda>t. Inr ((), f t))"

text \<open>\<open>query('BEGIN', [])\<close>, \<open>query('COMMIT', [])\<close> and \<open>query('ROLLBACK', [])\<close> go through
  \<open>pool.query\<close> like every other statement: each of them reaches whichever connection the
  pool hands out, and so does each statement sent after it. Which statements a
  transaction opened this way holds, and what a \<open>COMMIT\<close> or \<open>ROLLBACK\<close> then keeps or
  undoes, is not determined by the code. The one function that sends them,
  \<open>applyProposal\<close>, therefore takes what they do as a parameter, an arbitrary action on
  the world for each of the three.\<close>

datatype TransactionControl = Begin | Commit | Rollback

text \<open>The statements on \<open>itinerary_items\<close>.\<close>

definition insert_item :: "ItineraryItem \<Rightarrow> unit io" where
  "insert_item row =
     query (\<lambda>t. if item_id row \<in> item_id ` set (itinerary_items t) then Inl DuplicateKey
                else Inr ((), t\<lparr>itinerary_items := itinerary_items t @ [row]\<rparr>))"

definition update_items :: "(ItineraryItem \<Rightarrow> bool) \<Rightarrow> (ItineraryItem \<Rightarrow> ItineraryItem) \<Rightarrow> unit io" where
  "update_items cond f =
     execute (\<lambda>t. t\<lparr>itinerary_items := map (\<lambda>i. if cond i then f i else i) (itinerary_items t)\<rparr>)"

definition delete_items :: "(ItineraryItem \<Rightarrow> bool) \<Rightarrow> unit io" where
  "delete_items cond =
     execute (\<lambda>t. t\<lparr>itinerary_items := filter (\<lambda>i. \<not> cond i) (itinerary_items t)\<rparr>)"

subsection \<open>trip.service.ts\<close>

definition getTripById :: "uuid \<Rightarrow> string option \<Rightarrow> string option \<Rightarrow> Trip io" where
  "getTripById tripId userId guestSessionId =
     io_bind
       (select (\<lambda>t. filter (\<lambda>r. trip_ident r = tripId \<and>
                  (case truthy userId of
                     Some u \<Rightarrow> user_id r = Some u
                   | None \<Rightarrow> (case truthy guestSessionId of
                                Some g \<Rightarrow> guest_session_id r = Some g
                              | None \<Rightarrow> True))) (trips t)))
       (\<lambda>rows. case rows of
                 [] \<Rightarrow> io_throw (NotFoundError ''Trip'')
               | r # rest \<Rightarrow> io_return r)"

definition getTripWithPreferences ::
  "uuid \<Rightarrow> string option \<Rightarrow> string option \<Rightarrow> (Trip \<times> TripPreferences) io" where
  "getTripWithPreferences tripId userId guestSessionId =
     io_bind (getTripById tripId userId guestSessionId) (\<lambda>trip.
     io_bind (select (\<lambda>t. filter (\<lambda>r. fst r = tripId) (trip_preferences t))) (\<lambda>prefsRows.
       case prefsRows of
         [] \<Rightarrow> io_throw (NotFoundError ''Trip preferences'')
       | r # rest \<Rightarrow> io_return (trip, snd r)))"

subsection \<open>Reading the itinerary (itinerary-generator.service.ts)\<close>

text \<open>\<open>ORDER BY day, "order"\<close>, as a stable sort of the table.\<close>

definition order_by_day_order :: "ItineraryItem list \<Rightarrow> ItineraryItem list" where
  "order_by_day_order its = sort_key (\<lambda>i. (day i, order_no i)) its"

definition order_by_order :: "ItineraryItem list \<Rightarrow> ItineraryItem list" where
  "order_by_order its = sort_key order_no its"

definition order_by_start_time :: "ItineraryItem list \<Rightarrow> ItineraryItem list" where
  "order_by_start_time its = sort_key start_time its"

text \<open>The grouping of \<open>getItineraryByTripId\<close>: one day per day number, in the order of
  first appearance, then sorted by day number.\<close>

definition group_days :: "TripPreferences \<Rightarrow> ItineraryItem list \<Rightarrow> ItineraryDay list" where
  "group_days preferences its =
     sort_key day_no
       (map (\<lambda>dayNum.
               let dayItems = filter (\<lambda>i. day i = dayNum) its
               in \<lparr>day_no = dayNum,
                   date = dates_start preferences div MS_PER_DAY + int dayNum - 1,
                   items = dayItems,
                   total_travel_time_minutes = calculateDayTravelTime dayItems,
                   total_cost_estimate = calculateDayCost dayItems (budget_currency preferences)\<rparr>)
            (remdups (map day its)))"

definition getItineraryByTripId :: "uuid \<Rightarrow> Itinerary option io" where
  "getItineraryByTripId tripId =
     io_bind (select (\<lambda>t. filter (\<lambda>r. row_trip_id r = tripId) (itineraries t))) (\<lambda>itineraryRows.
       case itineraryRows of
         [] \<Rightarrow> io_return None
       | row # rest \<Rightarrow>
           io_bind (select (\<lambda>t. order_by_day_order
                              (filter (\<lambda>i. trip_id i = tripId) (itinerary_items t)))) (\<lambda>its.
           io_bind (getTripWithPreferences tripId None None) (\<lambda>tp.
             let ds = group_days (snd tp) its
             in io_return
                  (Some \<lparr>itinerary_id = row_id row, itinerary_trip_id = tripId, days = ds,
                         itinerary_total_cost = calculateTotalCost ds (budget_currency (snd tp)),
                         version = row_version row\<rparr>))))"

subsection \<open>Versions (itinerary-version.service.ts)\<close>

text \<open>The \<open>diff\<close> column, which \<open>createSnapshot\<close> computes from the previous version, is
  not modelled: nothing reads it. The query that fetches the previous version is.\<close>

definition getVersion :: "uuid \<Rightarrow> int \<Rightarrow> ItineraryVersion io" where
  "getVersion tripId v =
     io_bind (select (\<lambda>t. filter (\<lambda>r. version_trip_id r = tripId \<and> int (version_no r) = v)
                            (itinerary_versions t)))
       (\<lambda>rows. case rows of
                 [] \<Rightarrow> io_throw (NotFoundError ''Itinerary version'')
               | r # rest \<Rightarrow> io_return r)"

text \<open>\<open>INSERT INTO itinerary_versions\<close>, with the \<open>CHECK\<close> on \<open>change_type\<close> and the primary
  key; the column constraint is checked first.\<close>

definition insert_version :: "ItineraryVersion \<Rightarrow> unit io" where
  "insert_version row =
     query (\<lambda>t. if change_type row = Replan then Inl (CheckViolation ''change_type'')
                else if version_id row \<in> version_id ` set (itinerary_versions t)
                then Inl DuplicateKey
                else Inr ((), t\<lparr>itinerary_versions := itinerary_versions t @ [row]\<rparr>))"

definition createSnapshot ::
  "uuid \<Rightarrow> ChangeType \<Rightarrow> string option \<Rightarrow> ItineraryVersion option \<Rightarrow> ItineraryVersion io" where
  "createSnapshot tripId changeType changedBy previousVersion =
     io_bind (getItineraryByTripId tripId) (\<lambda>found.
       case found of
         None \<Rightarrow> io_throw (NotFoundError ''Itinerary'')
       | Some itinerary \<Rightarrow>
           io_bind uuidv4 (\<lambda>versionId.
             let row = \<lparr>version_id = versionId, version_trip_id = tripId,
                        version_no = version itinerary, change_type = changeType,
                        version_changed_by = truthy changedBy,
                        snapshot_days = days itinerary,
                        snapshot_total = itinerary_total_cost itinerary\<rparr>
             in io_bind (insert_version row) (\<lambda>u. io_return row)))"

section \<open>The editor (itinerary-editor.service.ts)\<close>

definition getItemById :: "uuid \<Rightarrow> uuid \<Rightarrow> ItineraryItem io" where
  "getItemById itemId tripId =
     io_bind (select (\<lambda>t. filter (\<lambda>i. item_id i = itemId \<and> trip_id i = tripId)
                            (itinerary_items t)))
       (\<lambda>rows. case rows of
                 [] \<Rightarrow> io_throw (NotFoundError ''Itinerary item'')
               | r # rest \<Rightarrow> io_return r)"

definition getDayItems :: "uuid \<Rightarrow> nat \<Rightarrow> ItineraryItem list io" where
  "getDayItems tripId dayNum =
     select (\<lambda>t. order_by_order
                  (filter (\<lambda>i. trip_id i = tripId \<and> day i = dayNum) (itinerary_items t)))"

definition getPOIById :: "uuid \<Rightarrow> POI io" where
  "getPOIById poiId =
     io_bind (select (\<lambda>t. filter (\<lambda>p. poi_ident p = poiId) (pois t)))
       (\<lambda>rows. case rows of
                 [] \<Rightarrow> io_throw (NotFoundError ''POI'')
               | r # rest \<Rightarrow> io_return r)"

text \<open>The loop of \<open>recalculateDayTimes\<close>, with the cursor \<open>currentTime\<close>. A pinned item
  whose start differs from the cursor is skipped and the cursor is set to its end;
  every other item is updated to start at the cursor, by one \<open>UPDATE ... WHERE id = $3\<close>.\<close>

fun reflow :: "ItineraryItem list \<Rightarrow> time \<Rightarrow> unit io" where
  "reflow [] currentTime w = (Inr (), w)"
| "reflow (item # rest) currentTime w =
     (if is_pinned item \<and> start_time item \<noteq> currentTime
      then reflow rest (end_time item) w
      else
        let newStartTime = currentTime;
            newEndTime = addMinutes newStartTime (duration_minutes item)
        in case update_items (\<lambda>i. item_id i = item_id item)
                  (\<lambda>i. i\<lparr>start_time := newStartTime, end_time := newEndTime\<rparr>) w of
             (Inl e, w1) \<Rightarrow> (Inl e, w1)
           | (Inr u, w1) \<Rightarrow> reflow rest newEndTime w1)"

definition recalculateDayTimes :: "uuid \<Rightarrow> nat \<Rightarrow> unit io" where
  "recalculateDayTimes tripId dayNum =
     io_bind (getDayItems tripId dayNum) (\<lambda>its.
     io_bind (getTripWithPreferences tripId None None) (\<lambda>tp.
       reflow its (window_start (snd tp))))"

text \<open>\<open>createVersionSnapshot\<close>: the snapshot after an edit. Whatever is thrown inside is
  caught and logged (\<open>versioning is not critical\<close>).\<close>

definition createVersionSnapshot :: "uuid \<Rightarrow> ChangeType \<Rightarrow> string option \<Rightarrow> unit io" where
  "createVersionSnapshot tripId changeType changedBy =
     io_catch
       (io_bind (getItineraryByTripId tripId) (\<lambda>found.
          case found of
            None \<Rightarrow> io_return ()
          | Some itinerary \<Rightarrow>
              io_bind (io_option (getVersion tripId (int (version itinerary) - 1)))
                (\<lambda>previousVersion.
              io_bind (createSnapshot tripId changeType changedBy previousVersion)
                (\<lambda>v. io_return ()))))
       (\<lambda>e. io_return ())"

text \<open>The loop of \<open>reorderItems\<close>: position \<open>i\<close> becomes the order of the \<open>i\<close>-th id.\<close>

fun set_orders :: "uuid \<Rightarrow> uuid list \<Rightarrow> nat \<Rightarrow> unit io" where
  "set_orders tripId [] i w = (Inr (), w)"
| "set_orders tripId (itemId # rest) i w =
     (case update_items (\<lambda>it. item_id it = itemId \<and> trip_id it = tripId)
             (\<lambda>it. it\<lparr>order_no := i\<rparr>) w of
        (Inl e, w1) \<Rightarrow> (Inl e, w1)
      | (Inr u, w1) \<Rightarrow> set_orders tripId rest (i + 1) w1)"

definition reorderItems :: "uuid \<Rightarrow> nat \<Rightarrow> uuid list \<Rightarrow> ItineraryItem list io" where
  "reorderItems tripId dayNum itemIds =
     io_bind (select (\<lambda>t. filter (\<lambda>i. trip_id i = tripId \<and> day i = dayNum \<and> item_id i \<in> set itemIds)
                            (itinerary_items t))) (\<lambda>rows.
       if length rows \<noteq> length itemIds
       then io_throw (ValidationError ''Some items not found or belong to different day'')
       else
         io_bind (set_orders tripId itemIds 0) (\<lambda>u1.
         io_bind (recalculateDayTimes tripId dayNum) (\<lambda>u2.
         io_bind (createVersionSnapshot tripId Reorder None) (\<lambda>u3.
           getDayItems tripId dayNum))))"

text \<open>\<open>togglePin\<close>. The change type is \<open>pin\<close> or \<open>unpin\<close> after the new value.\<close>

definition togglePin :: "uuid \<Rightarrow> uuid \<Rightarrow> bool \<Rightarrow> string option \<Rightarrow> ItineraryItem io" where
  "togglePin tripId itemId pinned changedBy =
     io_bind (update_items (\<lambda>i. item_id i = itemId \<and> trip_id i = tripId)
                (\<lambda>i. i\<lparr>is_pinned := pinned\<rparr>)) (\<lambda>u1.
     io_bind (createVersionSnapshot tripId (if pinned then Pin else Unpin) changedBy) (\<lambda>u2.
       getItemById itemId tripId))"

text \<open>The pattern \<open>^([0-1][0-9]|2[0-3]):[0-5][0-9]$\<close> of \<open>setStartTime\<close>.\<close>

definition valid_time :: "time \<Rightarrow> bool" where
  "valid_time t = (0 \<le> fst t \<and> fst t \<le> 23 \<and> 0 \<le> snd t \<and> snd t \<le> 59)"

definition setStartTime :: "uuid \<Rightarrow> uuid \<Rightarrow> time \<Rightarrow> string option \<Rightarrow> ItineraryItem io" where
  "setStartTime tripId itemId startTime changedBy =
     (if \<not> valid_time startTime then io_throw (ValidationError ''Invalid time format. Use HH:mm'')
      else
        io_bind (getItemById itemId tripId) (\<lambda>item.
          let endTime = addMinutes startTime (duration_minutes item)
          in io_bind (update_items (\<lambda>i. item_id i = itemId \<and> trip_id i = tripId)
                        (\<lambda>i. i\<lparr>start_time := startTime, end_time := endTime\<rparr>)) (\<lambda>u1.
             io_bind (recalculateDayTimes tripId (day item)) (\<lambda>u2.
             io_bind (createVersionSnapshot tripId TimeChange changedBy) (\<lambda>u3.
               getItemById itemId tripId)))))"

definition removeItem :: "uuid \<Rightarrow> uuid \<Rightarrow> string option \<Rightarrow> unit io" where
  "removeItem tripId itemId changedBy =
     io_bind (getItemById itemId tripId) (\<lambda>item.
       if is_pinned item
       then io_throw (ValidationError ''Cannot remove pinned item. Unpin it first.'')
       else
         io_bind (delete_items (\<lambda>i. item_id i = itemId \<and> trip_id i = tripId)) (\<lambda>u1.
         io_bind (recalculateDayTimes tripId (day item)) (\<lambda>u2.
           createVersionSnapshot tripId Remove changedBy)))"

definition addItem :: "uuid \<Rightarrow> nat \<Rightarrow> uuid \<Rightarrow> time option \<Rightarrow> string option \<Rightarrow> ItineraryItem io" where
  "addItem tripId dayNum poiId startTime changedBy =
     io_bind (getPOIById poiId) (\<lambda>poi.
     io_bind (getTripWithPreferences tripId None None) (\<lambda>tp.
     io_bind (getDayItems tripId dayNum) (\<lambda>existingItems.
       let itemStartTime =
             (case startTime of
                Some s \<Rightarrow> s
              | None \<Rightarrow>
                  if existingItems \<noteq> []
                  then addMinutes (end_time (last existingItems)) DEFAULT_BUFFER_MINUTES
                  else window_start (snd tp));
           itemEndTime = addMinutes itemStartTime (avg_duration_minutes poi)
       in
       io_bind uuidv4 (\<lambda>itemId.
       io_bind (insert_item
                  \<lparr>item_id = itemId, trip_id = tripId, day = dayNum, item_type = Poi,
                   poi_id = Some (poi_ident poi), name = poi_name poi,
                   location = Some (poi_location poi),
                   start_time = itemStartTime, end_time = itemEndTime,
                   duration_minutes = avg_duration_minutes poi, is_pinned = False,
                   order_no = length existingItems, route_from_previous = None,
                   cost_estimate = poi_cost poi\<rparr>) (\<lambda>u1.
       io_bind (recalculateDayTimes tripId dayNum) (\<lambda>u2.
       io_bind (createVersionSnapshot tripId Add changedBy) (\<lambda>u3.
         getItemById itemId tripId)))))))"

text \<open>The operations of the editor as data, and a sequence of them on one trip. Each
  operation runs on the world that the one before left, also when that one threw.\<close>

datatype EditorOp =
    ReorderOp nat "uuid list"
  | TogglePinOp uuid bool
  | SetStartTimeOp uuid time
  | AddOp nat uuid "time option"
  | RemoveOp uuid

definition discard :: "'a io \<Rightarrow> unit io" where
  "discard m = io_bind m (\<lambda>x. io_return ())"

definition editor_op :: "uuid \<Rightarrow> string option \<Rightarrow> EditorOp \<Rightarrow> unit io" where
  "editor_op tripId changedBy ed =
     (case ed of
        ReorderOp dayNum itemIds \<Rightarrow> discard (reorderItems tripId dayNum itemIds)
      | TogglePinOp itemId pinned \<Rightarrow> discard (togglePin tripId itemId pinned changedBy)
      | SetStartTimeOp itemId startTime \<Rightarrow> discard (setStartTime tripId itemId startTime changedBy)
      | AddOp dayNum poiId startTime \<Rightarrow> discard (addItem tripId dayNum poiId startTime changedBy)
      | RemoveOp itemId \<Rightarrow> removeItem tripId itemId changedBy)"

fun editor_ops :: "uuid \<Rightarrow> string option \<Rightarrow> EditorOp list \<Rightarrow> world \<Rightarrow> world" where
  "editor_ops tripId changedBy [] w = w"
| "editor_ops tripId changedBy (ed # rest) w =
     editor_ops tripId changedBy rest (snd (editor_op tripId changedBy ed w))"

section \<open>Events and triggers (event-monitor.service.ts)\<close>

definition getEventSignalById :: "uuid \<Rightarrow> EventSignal io" where
  "getEventSignalById eventId =
     io_bind (select (\<lambda>t. filter (\<lambda>e. event_id e = eventId) (event_signals t)))
       (\<lambda>rows. case rows of
                 [] \<Rightarrow> io_throw (NotFoundError ''Event signal'')
               | r # rest \<Rightarrow> io_return r)"

text \<open>\<open>createReplanTrigger(tripId, eventSignalId, reason, priority = 'medium')\<close>: the
  last argument is optional.\<close>

definition createReplanTrigger :: "uuid \<Rightarrow> uuid \<Rightarrow> string \<Rightarrow> Priority option \<Rightarrow> ReplanTrigger io" where
  "createReplanTrigger tripId eventSignalId reason priorityArg =
     (let prio = (case priorityArg of None \<Rightarrow> Medium | Some p \<Rightarrow> p)
      in io_bind uuidv4 (\<lambda>triggerId.
           let row = \<lparr>trigger_ident = triggerId, trigger_trip_id = tripId,
                      event_signal_id = eventSignalId, trigger_reason = reason,
                      priority = prio, processed = False\<rparr>
           in io_bind (execute (\<lambda>t. t\<lparr>replan_triggers := replan_triggers t @ [row]\<rparr>))
                (\<lambda>u. io_return row)))"

definition insert_event :: "EventSignal \<Rightarrow> unit io" where
  "insert_event row = execute (\<lambda>t. t\<lparr>event_signals := event_signals t @ [row]\<rparr>)"

text \<open>\<open>ingestWeatherEvent\<close> and \<open>ingestClosureEvent\<close>. \<open>findAffectedItems\<close> (a great-circle
  distance in floating point and a substring test on the lower-cased name) is a
  parameter; the weather details are the \<open>condition\<close>.\<close>

definition ingestWeatherEvent ::
  "(Itinerary \<Rightarrow> Location \<Rightarrow> int \<times> int \<Rightarrow> EventType \<Rightarrow> uuid list)
   \<Rightarrow> uuid \<Rightarrow> Location \<Rightarrow> int \<times> int \<Rightarrow> string \<Rightarrow> EventSeverity \<Rightarrow> EventSignal io" where
  "ingestWeatherEvent findAffectedItems tripId loc timeSlot condition sev =
     io_bind (getItineraryByTripId tripId) (\<lambda>found.
       case found of
         None \<Rightarrow> io_throw (NotFoundError ''Itinerary'')
       | Some itinerary \<Rightarrow>
           let affectedItems = findAffectedItems itinerary loc timeSlot Weather
           in io_bind uuidv4 (\<lambda>eventId.
              io_bind (insert_event
                         \<lparr>event_id = eventId, event_trip_id = tripId, event_type = Weather,
                          severity = sev, event_location = loc, time_slot = timeSlot,
                          event_details = condition, affected_items = affectedItems,
                          event_processed = False, replan_triggered = False\<rparr>) (\<lambda>u1.
              io_bind (if sev = High \<and> condition = ''heavy_rain''
                       then discard (createReplanTrigger tripId eventId
                                       ''Heavy rain affects outdoor activities'' None)
                       else io_return ()) (\<lambda>u2.
                getEventSignalById eventId))))"

definition ingestClosureEvent ::
  "(Itinerary \<Rightarrow> Location \<Rightarrow> int \<times> int \<Rightarrow> EventType \<Rightarrow> uuid list)
   \<Rightarrow> uuid \<Rightarrow> Location \<Rightarrow> int \<times> int \<Rightarrow> string \<Rightarrow> EventSeverity \<Rightarrow> EventSignal io" where
  "ingestClosureEvent findAffectedItems tripId loc timeSlot details sev =
     io_bind (getItineraryByTripId tripId) (\<lambda>found.
       case found of
         None \<Rightarrow> io_throw (NotFoundError ''Itinerary'')
       | Some itinerary \<Rightarrow>
           let affectedItems = findAffectedItems itinerary loc timeSlot Closure
           in io_bind uuidv4 (\<lambda>eventId.
              io_bind (insert_event
                         \<lparr>event_id = eventId, event_trip_id = tripId, event_type = Closure,
                          severity = sev, event_location = loc, time_slot = timeSlot,
                          event_details = details, affected_items = affectedItems,
                          event_processed = False, replan_triggered = False\<rparr>) (\<lambda>u1.
              io_bind (if sev = High \<or> sev = Medium
                       then discard (createReplanTrigger tripId eventId
                                       ''Place closure affects itinerary'' None)
                       else io_return ()) (\<lambda>u2.
                getEventSignalById eventId))))"

definition markTriggerProcessed :: "uuid \<Rightarrow> unit io" where
  "markTriggerProcessed triggerId =
     execute (\<lambda>t. t\<lparr>replan_triggers :=
       map (\<lambda>r. if trigger_ident r = triggerId then r\<lparr>processed := True\<rparr> else r)
           (replan_triggers t)\<rparr>)"

section \<open>Applying a proposal (replan-apply.service.ts)\<close>

definition ROLLBACK_WINDOW_HOURS :: int where
  "ROLLBACK_WINDOW_HOURS = 24"

definition getProposal :: "uuid \<Rightarrow> ReplanProposal io" where
  "getProposal proposalId =
     io_bind (select (\<lambda>t. filter (\<lambda>p. proposal_id p = proposalId) (replan_proposals t)))
       (\<lambda>rows. case rows of
                 [] \<Rightarrow> io_throw (NotFoundError ''Replan proposal'')
               | r # rest \<Rightarrow> io_return r)"

text \<open>\<open>findItemInItinerary\<close>: the first item with the id, day by day.\<close>

definition findItemInItinerary :: "Itinerary \<Rightarrow> uuid \<Rightarrow> ItineraryItem option" where
  "findItemInItinerary itinerary itemId =
     (case filter (\<lambda>i. item_id i = itemId) (concat (map items (days itinerary))) of
        [] \<Rightarrow> None
      | i # rest \<Rightarrow> Some i)"

text \<open>\<open>getDayFromTime\<close>: \<open>itinerary.days[0]?.day || 1\<close>, whatever the time.\<close>

definition getDayFromTime :: "Itinerary \<Rightarrow> time \<Rightarrow> nat" where
  "getDayFromTime itinerary timeStr =
     (case days itinerary of
        [] \<Rightarrow> 1
      | d # rest \<Rightarrow> if day_no d = 0 then 1 else day_no d)"

text \<open>\<open>calculateDuration\<close>: the minutes from the start to the end on 1 January 2000.\<close>

definition calculateDuration :: "time \<Rightarrow> time \<Rightarrow> int" where
  "calculateDuration startTime endTime = minutes_of endTime - minutes_of startTime"

text \<open>\<open>calculateNewEndTime\<close>: the old start and the itinerary are not used.\<close>

definition calculateNewEndTime :: "time \<Rightarrow> time \<Rightarrow> Itinerary \<Rightarrow> time" where
  "calculateNewEndTime newStartTime oldStartTime itinerary =
     (let duration = 120 in addMinutes newStartTime duration)"

text \<open>\<open>recalculateDayOrder\<close>: each item of the day gets its rank by start time.\<close>

definition rank_in :: "ItineraryItem list \<Rightarrow> uuid \<Rightarrow> nat" where
  "rank_in ranked itemId = length (takeWhile (\<lambda>j. item_id j \<noteq> itemId) ranked)"

definition recalculateDayOrder :: "uuid \<Rightarrow> nat \<Rightarrow> unit io" where
  "recalculateDayOrder tripId dayNum =
     execute (\<lambda>t.
       let ranked = order_by_start_time
                      (filter (\<lambda>i. trip_id i = tripId \<and> day i = dayNum) (itinerary_items t))
       in t\<lparr>itinerary_items :=
              map (\<lambda>i. if trip_id i = tripId \<and> day i = dayNum
                        then i\<lparr>order_no := rank_in ranked (item_id i)\<rparr> else i)
                  (itinerary_items t)\<rparr>)"

text \<open>The four loops of \<open>applyChanges\<close> and the loop over the affected days.\<close>

fun remove_each :: "uuid \<Rightarrow> RemovedItem list \<Rightarrow> unit io" where
  "remove_each tripId [] w = (Inr (), w)"
| "remove_each tripId (removed # rest) w =
     (case delete_items (\<lambda>i. item_id i = removed_item_id removed \<and> trip_id i = tripId) w of
        (Inl e, w1) \<Rightarrow> (Inl e, w1)
      | (Inr u, w1) \<Rightarrow> remove_each tripId rest w1)"

definition replacement_row :: "uuid \<Rightarrow> Itinerary \<Rightarrow> NewItem \<Rightarrow> ItineraryItem" where
  "replacement_row tripId itinerary item =
     \<lparr>item_id = new_id item, trip_id = tripId,
      day = getDayFromTime itinerary (new_start_time item), item_type = Poi,
      poi_id = new_poi_id item, name = new_name item, location = new_location item,
      start_time = new_start_time item, end_time = new_end_time item,
      duration_minutes = calculateDuration (new_start_time item) (new_end_time item),
      is_pinned = False, order_no = 0, route_from_previous = None, cost_estimate = None\<rparr>"

fun replace_each :: "uuid \<Rightarrow> Itinerary \<Rightarrow> ReplacedItem list \<Rightarrow> unit io" where
  "replace_each tripId itinerary [] w = (Inr (), w)"
| "replace_each tripId itinerary (replaced # rest) w =
     (case delete_items (\<lambda>i. item_id i = old_item_id replaced \<and> trip_id i = tripId) w of
        (Inl e, w1) \<Rightarrow> (Inl e, w1)
      | (Inr u, w1) \<Rightarrow>
          (case insert_item (replacement_row tripId itinerary (new_item replaced)) w1 of
             (Inl e, w2) \<Rightarrow> (Inl e, w2)
           | (Inr u, w2) \<Rightarrow> replace_each tripId itinerary rest w2))"

fun move_each :: "uuid \<Rightarrow> Itinerary \<Rightarrow> MovedItem list \<Rightarrow> unit io" where
  "move_each tripId itinerary [] w = (Inr (), w)"
| "move_each tripId itinerary (moved # rest) w =
     (case update_items (\<lambda>i. item_id i = moved_item_id moved \<and> trip_id i = tripId)
             (\<lambda>i. i\<lparr>day := new_day moved, start_time := new_time moved,
                     end_time := calculateNewEndTime (new_time moved) (old_time moved) itinerary\<rparr>)
             w of
        (Inl e, w1) \<Rightarrow> (Inl e, w1)
      | (Inr u, w1) \<Rightarrow> move_each tripId itinerary rest w1)"

definition added_row :: "uuid \<Rightarrow> AddedItem \<Rightarrow> ItineraryItem" where
  "added_row tripId added =
     \<lparr>item_id = added_id added, trip_id = tripId, day = added_day added, item_type = Poi,
      poi_id = added_poi_id added, name = added_name added, location = None,
      start_time = added_start_time added, end_time = added_end_time added,
      duration_minutes = calculateDuration (added_start_time added) (added_end_time added),
      is_pinned = False, order_no = 0, route_from_previous = None, cost_estimate = None\<rparr>"

fun add_each :: "uuid \<Rightarrow> AddedItem list \<Rightarrow> unit io" where
  "add_each tripId [] w = (Inr (), w)"
| "add_each tripId (added # rest) w =
     (case insert_item (added_row tripId added) w of
        (Inl e, w1) \<Rightarrow> (Inl e, w1)
      | (Inr u, w1) \<Rightarrow> add_each tripId rest w1)"

fun reorder_each :: "uuid \<Rightarrow> nat list \<Rightarrow> unit io" where
  "reorder_each tripId [] w = (Inr (), w)"
| "reorder_each tripId (dayNum # rest) w =
     (case recalculateDayOrder tripId dayNum w of
        (Inl e, w1) \<Rightarrow> (Inl e, w1)
      | (Inr u, w1) \<Rightarrow> reorder_each tripId rest w1)"

text \<open>The set of affected days, in insertion order.\<close>

definition affectedDays :: "ProposalChanges \<Rightarrow> Itinerary \<Rightarrow> nat list" where
  "affectedDays chg itinerary =
     rev (remdups (rev
       (concat (map (\<lambda>m. [old_day m, new_day m]) (moved_items chg)) @
        concat (map (\<lambda>r. case findItemInItinerary itinerary (old_item_id r) of
                            None \<Rightarrow> [] | Some i \<Rightarrow> [day i]) (replaced_items chg)) @
        map added_day (added_items chg))))"

definition applyChanges :: "ReplanProposal \<Rightarrow> Itinerary \<Rightarrow> unit io" where
  "applyChanges proposal itinerary =
     (let chg = changes proposal; tripId = proposal_trip_id proposal
      in io_bind (remove_each tripId (removed_items chg)) (\<lambda>u1.
         io_bind (replace_each tripId itinerary (replaced_items chg)) (\<lambda>u2.
         io_bind (move_each tripId itinerary (moved_items chg)) (\<lambda>u3.
         io_bind (add_each tripId (added_items chg)) (\<lambda>u4.
           reorder_each tripId (affectedDays chg itinerary))))))"

record ApplyReplanRequest =
  request_proposal_id :: uuid
  request_idempotency_key :: string

record ApplyReplanResponse =
  success :: bool
  new_version_id :: nat
  applied_at :: int
  response_rollback_available_until :: int

definition now :: "int io" where
  "now w = (Inr (clock w), w)"

text \<open>The body of the \<open>try\<close> block of \<open>applyProposal\<close>, from the changes to \<open>COMMIT\<close>.
  \<open>control\<close> is what the three transaction statements do.\<close>

definition apply_in_transaction ::
  "(TransactionControl \<Rightarrow> unit io) \<Rightarrow> ReplanProposal \<Rightarrow> Itinerary \<Rightarrow> ApplyReplanResponse io" where
  "apply_in_transaction control proposal currentItinerary =
     io_bind (applyChanges proposal currentItinerary) (\<lambda>u1.
       let newVersion = version currentItinerary + 1
       in io_bind (execute (\<lambda>t. t\<lparr>itineraries :=
                     map (\<lambda>r. if row_trip_id r = proposal_trip_id proposal
                               then r\<lparr>row_version := newVersion\<rparr> else r) (itineraries t)\<rparr>)) (\<lambda>u2.
          io_bind uuidv4 (\<lambda>applicationId.
          io_bind now (\<lambda>t0.
            let rollbackUntil = t0 + ROLLBACK_WINDOW_HOURS * 3600000
            in io_bind (execute (\<lambda>t. t\<lparr>replan_applications := replan_applications t @
                          [\<lparr>application_id = applicationId,
                            application_trip_id = proposal_trip_id proposal,
                            application_proposal_id = proposal_id proposal,
                            applied_version = newVersion,
                            rollback_available_until = rollbackUntil,
                            rolled_back = False\<rparr>]\<rparr>)) (\<lambda>u3.
               io_bind (case trigger_id proposal of
                          None \<Rightarrow> io_return ()
                        | Some triggerId \<Rightarrow> markTriggerProcessed triggerId) (\<lambda>u4.
               io_bind (control Commit) (\<lambda>u5.
               io_bind now (\<lambda>t1.
                 io_return \<lparr>success = True, new_version_id = newVersion, applied_at = t1,
                            response_rollback_available_until = rollbackUntil\<rparr>))))))))"

text \<open>\<open>applyProposal\<close>. The snapshot, of change type \<open>replan\<close>, is written before \<open>BEGIN\<close>;
  a failing lookup of the previous version is caught (\<open>.catch(() => null)\<close>).\<close>

definition applyProposal ::
  "(TransactionControl \<Rightarrow> unit io) \<Rightarrow> ApplyReplanRequest \<Rightarrow> string option
   \<Rightarrow> ApplyReplanResponse io" where
  "applyProposal control request userId =
     io_bind (getProposal (request_proposal_id request)) (\<lambda>proposal.
     io_bind (getItineraryByTripId (proposal_trip_id proposal)) (\<lambda>found.
       case found of
         None \<Rightarrow> io_throw (NotFoundError ''Itinerary'')
       | Some currentItinerary \<Rightarrow>
           io_bind (io_option (getVersion (proposal_trip_id proposal)
                                 (int (version currentItinerary)))) (\<lambda>previousVersion.
           io_bind (createSnapshot (proposal_trip_id proposal) Replan userId previousVersion)
             (\<lambda>snapshot.
           io_bind (control Begin) (\<lambda>u.
             io_catch (apply_in_transaction control proposal currentItinerary)
               (\<lambda>e. io_bind (control Rollback) (\<lambda>u. io_throw e)))))))"

section \<open>Generating and saving (itinerary-generator.service.ts)\<close>

datatype RegenerateMode = Full | Incremental









section \<open>Specifications of asynchronous code\<close>

text \<open>
  What a request can observe of the world and change in it: the tables.
  \<open>hoare P m Q E\<close>: started where \<open>P\<close> holds, \<open>m\<close> returns \<open>x\<close> in a state where \<open>Q x\<close>
  holds, or throws in a state where \<open>E\<close> holds, whatever the forced failure and the supply
  of ids are.
\<close>

type_synonym view = tables

definition view :: "world \<Rightarrow> view" where
  "view w = store w"

definition outcome :: "('a \<Rightarrow> view \<Rightarrow> bool) \<Rightarrow> (view \<Rightarrow> bool) \<Rightarrow> (error + 'a) \<times> world \<Rightarrow> bool" where
  "outcome Q E r = (case fst r of Inr x \<Rightarrow> Q x (view (snd r)) | Inl e \<Rightarrow> E (view (snd r)))"

definition hoare :: "(view \<Rightarrow> bool) \<Rightarrow> 'a io \<Rightarrow> ('a \<Rightarrow> view \<Rightarrow> bool) \<Rightarrow> (view \<Rightarrow> bool) \<Rightarrow> bool" where
  "hoare P m Q E = (\<forall>w. P (view w) \<longrightarrow> outcome Q E (m w))"

text \<open>\<open>keeps I m\<close>: \<open>m\<close> preserves \<open>I\<close>, whether it returns or throws.\<close>

definition keeps :: "(view \<Rightarrow> bool) \<Rightarrow> 'a io \<Rightarrow> bool" where
  "keeps I m = hoare I m (\<lambda>x. I) I"

text \<open>What the reads return on given tables, when no query fails.\<close>

definition read_trip :: "tables \<Rightarrow> uuid \<Rightarrow> string option \<Rightarrow> string option \<Rightarrow> error + Trip" where
  "read_trip t tripId userId guestSessionId =
     (case filter (\<lambda>r. trip_ident r = tripId \<and>
                  (case truthy userId of
                     Some u \<Rightarrow> user_id r = Some u
                   | None \<Rightarrow> (case truthy guestSessionId of
                                Some g \<Rightarrow> guest_session_id r = Some g
                              | None \<Rightarrow> True))) (trips t) of
        [] \<Rightarrow> Inl (NotFoundError ''Trip'')
      | r # rest \<Rightarrow> Inr r)"

definition read_preferences ::
  "tables \<Rightarrow> uuid \<Rightarrow> string option \<Rightarrow> string option \<Rightarrow> error + Trip \<times> TripPreferences" where
  "read_preferences t tripId userId guestSessionId =
     (case read_trip t tripId userId guestSessionId of
        Inl e \<Rightarrow> Inl e
      | Inr trip \<Rightarrow>
          (case filter (\<lambda>r. fst r = tripId) (trip_preferences t) of
             [] \<Rightarrow> Inl (NotFoundError ''Trip preferences'')
           | r # rest \<Rightarrow> Inr (trip, snd r)))"

definition read_itinerary :: "tables \<Rightarrow> uuid \<Rightarrow> error + Itinerary option" where
  "read_itinerary t tripId =
     (case filter (\<lambda>r. row_trip_id r = tripId) (itineraries t) of
        [] \<Rightarrow> Inr None
      | row # rest \<Rightarrow>
          (case read_preferences t tripId None None of
             Inl e \<Rightarrow> Inl e
           | Inr tp \<Rightarrow>
               let ds = group_days (snd tp)
                          (order_by_day_order (filter (\<lambda>i. trip_id i = tripId) (itinerary_items t)))
               in Inr (Some \<lparr>itinerary_id = row_id row, itinerary_trip_id = tripId, days = ds,
                              itinerary_total_cost = calculateTotalCost ds (budget_currency (snd tp)),
                              version = row_version row\<rparr>)))"

text \<open>The current version of a trip's itinerary, if it has one.\<close>

definition current_version :: "tables \<Rightarrow> uuid \<Rightarrow> nat option" where
  "current_version t tripId =
     (case filter (\<lambda>r. row_trip_id r = tripId) (itineraries t) of
        [] \<Rightarrow> None
      | row # rest \<Rightarrow> Some (row_version row))"

text \<open>The trigger that the ingest operations insert: they pass no priority.\<close>

definition trigger_row :: "uuid \<Rightarrow> uuid \<Rightarrow> uuid \<Rightarrow> string \<Rightarrow> ReplanTrigger" where
  "trigger_row tid tripId eventId reason =
     \<lparr>trigger_ident = tid, trigger_trip_id = tripId, event_signal_id = eventId,
      trigger_reason = reason, priority = Medium, processed = False\<rparr>"

section \<open>A concrete world\<close>

text \<open>Trip 1 of end-to-end scenario 4: one item, an outdoor park at 14:00-16:00 on day 1,
  in version 1 of the itinerary; no failure is forced.\<close>

definition example_item :: ItineraryItem where
  "example_item =
     \<lparr>item_id = 10, trip_id = 1, day = 1, item_type = Poi, poi_id = Some 100,
      name = ''OutdoorPark'', location = Some (1375 / 100, 1005 / 10),
      start_time = (14, 0), end_time = (16, 0), duration_minutes = 120, is_pinned = False,
      order_no = 0, route_from_previous = None, cost_estimate = None\<rparr>"

definition example_tables :: tables where
  "example_tables =
     \<lparr>trips = [\<lparr>trip_ident = 1, user_id = Some ''u1'', guest_session_id = None\<rparr>],
      trip_preferences = [(1, example_preferences)],
      pois = [example_poi_A (1375 / 100, 1005 / 10), example_poi_B (1376 / 100, 1005 / 10)],
      itineraries = [\<lparr>row_id = 50, row_trip_id = 1, row_version = 1\<rparr>],
      itinerary_items = [example_item],
      itinerary_versions = [],
      replan_proposals = [],
      replan_applications = [],
      replan_triggers = [],
      event_signals = []\<rparr>"

definition example_world :: world where
  "example_world =
     \<lparr>store = example_tables, fail_in = None, uuids = (\<lambda>n. 1000 + n),
      uuids_drawn = 0, clock = 20140 * MS_PER_DAY, tz_offset = 0\<rparr>"

text \<open>Further items and worlds for the concrete cases: an item of trip 1 with the given
  id, name, day, times, duration, pin and order.\<close>

definition mk_item ::
  "uuid \<Rightarrow> string \<Rightarrow> nat \<Rightarrow> time \<Rightarrow> time \<Rightarrow> int \<Rightarrow> bool \<Rightarrow> nat \<Rightarrow> ItineraryItem" where
  "mk_item i nm d s e dur pinned ord =
     \<lparr>item_id = i, trip_id = 1, day = d, item_type = Poi, poi_id = None, name = nm,
      location = None, start_time = s, end_time = e, duration_minutes = dur,
      is_pinned = pinned, order_no = ord, route_from_previous = None, cost_estimate = None\<rparr>"

definition world_with :: "ItineraryItem list \<Rightarrow> ReplanProposal list \<Rightarrow> world" where
  "world_with its proposals =
     example_world\<lparr>store := example_tables\<lparr>itinerary_items := its,
                                             replan_proposals := proposals\<rparr>\<rparr>"

text \<open>A day in the order X, P, Z: X (120 minutes) at 10:00-12:00, P pinned at
  09:00-09:30, Z (60 minutes).\<close>

definition reflow_items :: "ItineraryItem list" where
  "reflow_items =
     [mk_item 11 ''X'' 1 (10, 0) (12, 0) 120 False 0,
      mk_item 12 ''P'' 1 (9, 0) (9, 30) 30 True 1,
      mk_item 13 ''Z'' 1 (12, 0) (13, 0) 60 False 2]"

text \<open>A proposal that moves item Y (90 minutes, 10:00-11:30 on day 1) to 13:00 on day 2,
  and one that replaces item W of day 2 by a new item V.\<close>

definition move_proposal :: ReplanProposal where
  "move_proposal =
     \<lparr>proposal_id = 70, proposal_trip_id = 1, trigger_id = None,
      changes = \<lparr>replaced_items = [],
                 moved_items = [\<lparr>moved_item_id = 21, old_day = 1, new_day = 2,
                                 old_time = (10, 0), new_time = (13, 0)\<rparr>],
                 removed_items = [], added_items = []\<rparr>\<rparr>"

definition move_world :: world where
  "move_world =
     world_with [mk_item 21 ''Y'' 1 (10, 0) (11, 30) 90 False 0,
                 mk_item 22 ''W'' 2 (10, 0) (11, 0) 60 False 0] [move_proposal]"

definition replace_proposal :: ReplanProposal where
  "replace_proposal =
     \<lparr>proposal_id = 71, proposal_trip_id = 1, trigger_id = None,
      changes = \<lparr>replaced_items =
                   [\<lparr>old_item_id = 22, old_item_name = ''W'',
                     new_item = \<lparr>new_id = 23, new_name = ''V'', new_poi_id = None,
                                 new_start_time = (10, 0), new_end_time = (11, 0),
                                 new_location = None\<rparr>\<rparr>],
                 moved_items = [], removed_items = [], added_items = []\<rparr>\<rparr>"

definition replace_world :: world where
  "replace_world =
     world_with [mk_item 21 ''Y'' 1 (10, 0) (11, 30) 90 False 0,
                 mk_item 22 ''W'' 2 (10, 0) (11, 0) 60 False 0] [replace_proposal]"

definition schedule :: "world \<Rightarrow> (string \<times> nat \<times> time \<times> time \<times> int) list" where
  "schedule w =
     map (\<lambda>i. (name i, day i, start_time i, end_time i, duration_minutes i))
         (itinerary_items (store w))"

text \<open>The itinerary of a trip as \<open>getItineraryByTripId\<close> returns it in a world, the one
  that is passed on to \<open>applyChanges\<close>; an itinerary without days if the trip has none.\<close>

definition itinerary_of :: "world \<Rightarrow> uuid \<Rightarrow> Itinerary" where
  "itinerary_of w tripId =
     (case fst (getItineraryByTripId tripId w) of
        Inr (Some itinerary) \<Rightarrow> itinerary
      | _ \<Rightarrow> \<lparr>itinerary_id = 0, itinerary_trip_id = tripId, days = [],
               itinerary_total_cost = calculateTotalCost [] [], version = 0\<rparr>)"

section \<open>The effect of the loops of \<open>applyChanges\<close> on the item table\<close>

text \<open>What the statements of each loop do to the rows of \<open>itinerary_items\<close>, one after
  the other, when none of them fails.\<close>

fun items_after_remove :: "uuid \<Rightarrow> RemovedItem list \<Rightarrow> ItineraryItem list \<Rightarrow> ItineraryItem list" where
  "items_after_remove tripId [] its = its"
| "items_after_remove tripId (removed # rest) its =
     items_after_remove tripId rest
       (filter (\<lambda>i. \<not> (item_id i = removed_item_id removed \<and> trip_id i = tripId)) its)"

fun items_after_replace ::
  "uuid \<Rightarrow> Itinerary \<Rightarrow> ReplacedItem list \<Rightarrow> ItineraryItem list \<Rightarrow> ItineraryItem list" where
  "items_after_replace tripId itinerary [] its = its"
| "items_after_replace tripId itinerary (replaced # rest) its =
     items_after_replace tripId itinerary rest
       (filter (\<lambda>i. \<not> (item_id i = old_item_id replaced \<and> trip_id i = tripId)) its @
        [replacement_row tripId itinerary (new_item replaced)])"

definition moved_to :: "Itinerary \<Rightarrow> MovedItem \<Rightarrow> ItineraryItem \<Rightarrow> ItineraryItem" where
  "moved_to itinerary moved i =
     i\<lparr>day := new_day moved, start_time := new_time moved,
       end_time := calculateNewEndTime (new_time moved) (old_time moved) itinerary\<rparr>"

fun items_after_move ::
  "uuid \<Rightarrow> Itinerary \<Rightarrow> MovedItem list \<Rightarrow> ItineraryItem list \<Rightarrow> ItineraryItem list" where
  "items_after_move tripId itinerary [] its = its"
| "items_after_move tripId itinerary (moved # rest) its =
     items_after_move tripId itinerary rest
       (map (\<lambda>i. if item_id i = moved_item_id moved \<and> trip_id i = tripId
                 then moved_to itinerary moved i else i) its)"

fun items_after_add :: "uuid \<Rightarrow> AddedItem list \<Rightarrow> ItineraryItem list \<Rightarrow> ItineraryItem list" where
  "items_after_add tripId [] its = its"
| "items_after_add tripId (added # rest) its =
     items_after_add tripId rest (its @ [added_row tripId added])"

definition reorder_day :: "uuid \<Rightarrow> nat \<Rightarrow> ItineraryItem list \<Rightarrow> ItineraryItem list" where
  "reorder_day tripId dayNum its =
     (let ranked = order_by_start_time (filter (\<lambda>i. trip_id i = tripId \<and> day i = dayNum) its)
      in map (\<lambda>i. if trip_id i = tripId \<and> day i = dayNum
                   then i\<lparr>order_no := rank_in ranked (item_id i)\<rparr> else i) its)"

fun items_after_reorder :: "uuid \<Rightarrow> nat list \<Rightarrow> ItineraryItem list \<Rightarrow> ItineraryItem list" where
  "items_after_reorder tripId [] its = its"
| "items_after_reorder tripId (dayNum # rest) its =
     items_after_reorder tripId rest (reorder_day tripId dayNum its)"

definition items_after_changes :: "ReplanProposal \<Rightarrow> Itinerary \<Rightarrow> ItineraryItem list \<Rightarrow> ItineraryItem list" where
  "items_after_changes proposal itinerary its =
     (let chg = changes proposal; tripId = proposal_trip_id proposal
      in items_after_reorder tripId (affectedDays chg itinerary)
           (items_after_add tripId (added_items chg)
              (items_after_move tripId itinerary (moved_items chg)
                 (items_after_replace tripId itinerary (replaced_items chg)
                    (items_after_remove tripId (removed_items chg) its)))))"

text \<open>A state that differs from \<open>s0\<close> in the item table at most.\<close>

definition items_only :: "view \<Rightarrow> view \<Rightarrow> bool" where
  "items_only s0 s = (\<exists>its. s = s0\<lparr>itinerary_items := its\<rparr>)"

definition with_items :: "view \<Rightarrow> ItineraryItem list \<Rightarrow> view" where
  "with_items s its = s\<lparr>itinerary_items := its\<rparr>"

section \<open>The re-flow policy as the specification states it\<close>

text \<open>The times of the items of a day, in their order, after the re-flow that the
  specification describes: a pinned item whose start differs from the cursor keeps its
  times and the cursor becomes the later of the cursor and the end of the item; every
  other item starts at the cursor and ends its duration later, where the cursor goes.
  This definition follows the words of the specification, not the code.\<close>

fun stated_reflow :: "ItineraryItem list \<Rightarrow> time \<Rightarrow> ItineraryItem list" where
  "stated_reflow [] cursor = []"
| "stated_reflow (item # rest) cursor =
     (if is_pinned item \<and> start_time item \<noteq> cursor
      then item # stated_reflow rest
                    (if time_less cursor (end_time item) then end_time item else cursor)
      else item\<lparr>start_time := cursor, end_time := addMinutes cursor (duration_minutes item)\<rparr>
             # stated_reflow rest (addMinutes cursor (duration_minutes item)))"

section \<open>Snapshots written by the editor\<close>

text \<open>A state reached from the tables \<open>t0\<close> in which the itinerary rows are those of
  \<open>t0\<close> and the version rows are those of \<open>t0\<close> followed by snapshots of the trip that
  carry the version the trip's itinerary has in \<open>t0\<close>.\<close>

definition snapshots_of_current :: "tables \<Rightarrow> uuid \<Rightarrow> view \<Rightarrow> bool" where
  "snapshots_of_current t0 tripId s =
     (itineraries s = itineraries t0 \<and>
      take (length (itinerary_versions t0)) (itinerary_versions s) = itinerary_versions t0 \<and>
      (\<forall>r \<in> set (drop (length (itinerary_versions t0)) (itinerary_versions s)).
         version_trip_id r = tripId \<and> current_version t0 tripId = Some (version_no r)))"

text \<open>Trip 1 after its generation, with the snapshot of version 1, and a sequence of
  editor operations on it, one of each kind: add POI B to day 1 (it gets the id 1000),
  put it first, pin the park, set the start of the park to 15:00, remove B.\<close>

definition editor_world :: world where
  "editor_world =
     example_world\<lparr>store := example_tables\<lparr>itinerary_versions :=
       [\<lparr>version_id = 60, version_trip_id = 1, version_no = 1, change_type = Generate,
         version_changed_by = Some ''u1'',
         snapshot_days = (case read_itinerary example_tables 1 of
                            Inr (Some it) \<Rightarrow> days it | _ \<Rightarrow> []),
         snapshot_total = calculateTotalCost [] ''THB''\<rparr>]\<rparr>\<rparr>"

definition editor_sequence :: "EditorOp list" where
  "editor_sequence =
     [AddOp 1 101 None, ReorderOp 1 [1000, 10], TogglePinOp 10 True,
      SetStartTimeOp 10 (15, 0), RemoveOp 1000]"

section \<open>A trip with a pinned item\<close>




text \<open>What the transaction statements do when each reaches a connection on which it
  changes no table: one possible behaviour of the pool.\<close>

definition no_control :: "TransactionControl \<Rightarrow> unit io" where
  "no_control c = io_return ()"

chapter \<open>Properties\<close>

section \<open>The generator on the two-day scenario\<close>

lemmas generator_defs = generateDays_def distributePOIs_def bucket_def generateDayItems_def
  ceil_div_def MS_PER_DAY_def poi_hours_def hours_closed_def hours_open_def hours_close_def
  after_close_def parseTime_def formatTime_def poi_cost_def calculateDayCost_def
  calculateDayTravelTime_def DEFAULT_BUFFER_MINUTES_def DEFAULT_TRAVEL_TIME_PLACEHOLDER_def
  slots_def day_summary_def generated_days_def

lemmas example_defs = example_preferences_def example_poi_A_def example_poi_B_def

text \<open>
  Claim C6, as the specification states it: for the dates 2025-03-01..2025-03-02, the
  window 10:00-20:00 and the POIs A (120 minutes, 09:00-17:00, 500 THB) and B (90 minutes,
  09:00-18:00, 200 THB), the generator produces two days, Day 1 with only A at
  10:15-12:15 (cost 500) and Day 2 with only B at 10:15-11:45 (cost 200).
  The code does not: \<open>N = ceil((end - start) / 1 day)\<close> is 1 for these dates, so it
  produces one day.
\<close>

theorem generate_two_day_scenario_counterexample:
  "map_sum id (map day_summary)
     (generated_days (generateDays (\<lambda>n. n) 0 0 0 [example_poi_A (0, 0), example_poi_B (0, 0)]
        example_preferences None False))
   \<noteq> Inr [(1, [(''A'', (10, 15), (12, 15))], 500), (2, [(''B'', (10, 15), (11, 45))], 200)]"
  by (simp add: generator_defs example_defs Let_def upt_rec)

text \<open>
  Claim C6, amended: with \<open>N = ceil((end - start) / 1 day) = 1\<close> the generator produces
  exactly one day, for every zone offset, every current date, every supply of ids and
  every pair of locations: Day 1 holds A at 10:15-12:15 (15 minutes of leading buffer)
  and then B at 12:50-14:20 (15 minutes of buffer and the 20 minutes travel placeholder
  after A), and its cost is 700.
\<close>

theorem generate_two_day_scenario:
  "ceil_div (dates_end example_preferences - dates_start example_preferences) MS_PER_DAY = 1 \<and>
   map_sum id (map day_summary)
     (generated_days (generateDays new_uuid n tz today [example_poi_A la, example_poi_B lb]
        example_preferences None False))
   = Inr [(1, [(''A'', (10, 15), (12, 15)), (''B'', (12, 50), (14, 20))], 700)]"
  by (simp add: generator_defs example_defs Let_def upt_rec)

section \<open>Rules for specifications of asynchronous code\<close>

lemma hoareI: "(\<And>w. P (view w) \<Longrightarrow> outcome Q E (m w)) \<Longrightarrow> hoare P m Q E"
  by (simp add: hoare_def)

lemma hoareD: "hoare P m Q E \<Longrightarrow> P (view w) \<Longrightarrow> outcome Q E (m w)"
  by (simp add: hoare_def)

lemma hoare_Inr: "hoare P m Q E \<Longrightarrow> P (view w) \<Longrightarrow> m w = (Inr x, w') \<Longrightarrow> Q x (view w')"
  by (auto simp: hoare_def outcome_def)

lemma hoare_Inl: "hoare P m Q E \<Longrightarrow> P (view w) \<Longrightarrow> m w = (Inl e, w') \<Longrightarrow> E (view w')"
  by (auto simp: hoare_def outcome_def)

lemma hoare_weaken:
  assumes "hoare P' m Q' E'" "\<And>s. P s \<Longrightarrow> P' s" "\<And>x s. Q' x s \<Longrightarrow> Q x s" "\<And>s. E' s \<Longrightarrow> E s"
  shows "hoare P m Q E"
proof (rule hoareI)
  fix w assume "P (view w)"
  then have "P' (view w)" by (rule assms(2))
  from hoareD[OF assms(1) this] show "outcome Q E (m w)"
    by (cases "fst (m w)") (simp_all add: outcome_def assms(3,4))
qed

lemma hoare_pre:
  assumes "hoare P' m Q E" "\<And>s. P s \<Longrightarrow> P' s"
  shows "hoare P m Q E"
  using assms(1) by (rule hoare_weaken) (simp_all add: assms(2))

lemma hoare_return: "hoare (Q x) (io_return x) Q E"
  by (simp add: hoare_def outcome_def io_return_def)

lemma hoare_throw: "hoare E (io_throw e) Q E"
  by (simp add: hoare_def outcome_def io_throw_def)

lemma hoare_bind:
  assumes "hoare P m R E" "\<And>x. hoare (R x) (f x) Q E"
  shows "hoare P (io_bind m f) Q E"
  unfolding hoare_def
proof (intro allI impI)
  fix w assume P: "P (view w)"
  obtain r w1 where mw: "m w = (r, w1)" by (cases "m w")
  from hoareD[OF assms(1) P] mw show "outcome Q E (io_bind m f w)"
  proof (cases r)
    case (Inl e)
    with hoareD[OF assms(1) P] mw show ?thesis by (simp add: io_bind_def outcome_def)
  next
    case (Inr x)
    with hoareD[OF assms(1) P] mw have "R x (view w1)" by (simp add: outcome_def)
    from hoareD[OF assms(2) this] Inr mw show ?thesis by (simp add: io_bind_def)
  qed
qed

lemma hoare_catch:
  assumes "hoare P m Q R" "\<And>e. hoare R (h e) Q E"
  shows "hoare P (io_catch m h) Q E"
  unfolding hoare_def
proof (intro allI impI)
  fix w assume P: "P (view w)"
  obtain r w1 where mw: "m w = (r, w1)" by (cases "m w")
  show "outcome Q E (io_catch m h w)"
  proof (cases r)
    case (Inr x)
    with hoareD[OF assms(1) P] mw show ?thesis by (simp add: io_catch_def outcome_def)
  next
    case (Inl e)
    with hoareD[OF assms(1) P] mw have "R (view w1)" by (simp add: outcome_def)
    from hoareD[OF assms(2) this] Inl mw show ?thesis by (simp add: io_catch_def)
  qed
qed

lemma hoare_option:
  assumes "hoare P m (\<lambda>x. Q (Some x)) (Q None)"
  shows "hoare P (io_option m) Q E"
  using assms by (auto simp: hoare_def outcome_def io_option_def split: sum.splits prod.splits)

lemma hoare_discard:
  assumes "hoare P m (\<lambda>x. Q ()) E"
  shows "hoare P (discard m) Q E"
  unfolding discard_def by (rule hoare_bind[OF assms]) (rule hoare_return)

lemma hoare_uuidv4: "hoare (\<lambda>s. \<forall>x. Q x s) uuidv4 Q E"
  by (simp add: hoare_def outcome_def uuidv4_def view_def)

lemma hoare_now: "hoare (\<lambda>s. \<forall>x. Q x s) now Q E"
  by (simp add: hoare_def outcome_def now_def view_def)

lemma hoare_query:
  assumes "\<And>t. P t \<Longrightarrow>
     E t \<and> (case stmt t of Inl e \<Rightarrow> E t | Inr (r, t') \<Rightarrow> Q r t')"
  shows "hoare P (query stmt) Q E"
  unfolding hoare_def
proof (intro allI impI)
  fix w assume "P (view w)"
  then have "P (store w)" by (simp add: view_def)
  from assms[OF this] show "outcome Q E (query stmt w)"
    by (auto simp: query_def outcome_def view_def Let_def split: sum.splits prod.splits)
qed

lemma hoare_select:
  assumes "\<And>t. P t \<Longrightarrow> E t \<and> Q (f t) t"
  shows "hoare P (select f) Q E"
  unfolding select_def by (rule hoare_query) (use assms in auto)

lemma hoare_execute:
  assumes "\<And>t. P t \<Longrightarrow> E t \<and> Q () (f t)"
  shows "hoare P (execute f) Q E"
  unfolding execute_def by (rule hoare_query) (use assms in auto)

lemma hoare_if:
  assumes "c \<Longrightarrow> hoare P m1 Q E" "\<not> c \<Longrightarrow> hoare P m2 Q E"
  shows "hoare P (if c then m1 else m2) Q E"
  using assms by simp

text \<open>The same rules read backwards, from the postcondition to the weakest
  precondition.\<close>

named_theorems wp

lemma wp_return [wp]: "hoare (Q x) (io_return x) Q E"
  by (rule hoare_return)

lemma wp_throw [wp]: "hoare E (io_throw e) Q E"
  by (rule hoare_throw)

lemma wp_bind [wp]:
  assumes "\<And>x. hoare (R x) (f x) Q E" "hoare P m R E"
  shows "hoare P (io_bind m f) Q E"
  using assms(2) assms(1) by (rule hoare_bind)

lemma wp_catch [wp]:
  assumes "\<And>e. hoare R (h e) Q E" "hoare P m Q R"
  shows "hoare P (io_catch m h) Q E"
  using assms(2) assms(1) by (rule hoare_catch)

lemma wp_option [wp]:
  assumes "hoare P m (\<lambda>x. Q (Some x)) (Q None)"
  shows "hoare P (io_option m) Q E"
  using assms by (rule hoare_option)

lemma wp_discard [wp]:
  assumes "hoare P m (\<lambda>x. Q ()) E"
  shows "hoare P (discard m) Q E"
  using assms by (rule hoare_discard)

lemma wp_uuidv4 [wp]: "hoare (\<lambda>s. \<forall>x. Q x s) uuidv4 Q E"
  by (rule hoare_uuidv4)

lemma wp_now [wp]: "hoare (\<lambda>s. \<forall>x. Q x s) now Q E"
  by (rule hoare_now)

lemma wp_query:
  "hoare (\<lambda>s. E s \<and> (case stmt s of Inl e \<Rightarrow> E s | Inr (r, t') \<Rightarrow> Q r t'))
     (query stmt) Q E"
  by (rule hoare_query) (auto split: sum.splits)

lemma wp_select [wp]: "hoare (\<lambda>s. E s \<and> Q (f s) s) (select f) Q E"
  by (rule hoare_select) simp

lemma wp_execute [wp]: "hoare (\<lambda>s. E s \<and> Q () (f s)) (execute f) Q E"
  by (rule hoare_execute) simp

lemma wp_if [wp]:
  assumes "hoare P1 m1 Q E" "hoare P2 m2 Q E"
  shows "hoare (\<lambda>s. if c then P1 s else P2 s) (if c then m1 else m2) Q E"
  using assms by simp

lemma wp_case_list [wp]:
  assumes "hoare P1 m1 Q E" "\<And>x xs. hoare (P2 x xs) (m2 x xs) Q E"
  shows "hoare (\<lambda>s. case l of [] \<Rightarrow> P1 s | x # xs \<Rightarrow> P2 x xs s)
           (case l of [] \<Rightarrow> m1 | x # xs \<Rightarrow> m2 x xs) Q E"
  using assms by (cases l) simp_all

lemma wp_case_option [wp]:
  assumes "hoare P1 m1 Q E" "\<And>x. hoare (P2 x) (m2 x) Q E"
  shows "hoare (\<lambda>s. case v of None \<Rightarrow> P1 s | Some x \<Rightarrow> P2 x s)
           (case v of None \<Rightarrow> m1 | Some x \<Rightarrow> m2 x) Q E"
  using assms by (cases v) simp_all

lemma wp_insert_item [wp]:
  "hoare (\<lambda>s. E s \<and> (item_id row \<notin> item_id ` set (itinerary_items s) \<longrightarrow>
              Q () (s\<lparr>itinerary_items := itinerary_items s @ [row]\<rparr>)))
     (insert_item row) Q E"
  unfolding insert_item_def by (rule hoare_pre[OF wp_query]) (auto split: sum.splits)

lemma wp_insert_version [wp]:
  "hoare (\<lambda>s. E s \<and> (change_type row \<noteq> Replan \<and>
                       version_id row \<notin> version_id ` set (itinerary_versions s) \<longrightarrow>
              Q () (s\<lparr>itinerary_versions := itinerary_versions s @ [row]\<rparr>)))
     (insert_version row) Q E"
  unfolding insert_version_def by (rule hoare_pre[OF wp_query]) (auto split: sum.splits)

lemma wp_update_items [wp]:
  "hoare (\<lambda>s. E s \<and> Q () (s\<lparr>itinerary_items :=
              map (\<lambda>i. if cond i then f i else i) (itinerary_items s)\<rparr>))
     (update_items cond f) Q E"
  unfolding update_items_def by (rule wp_execute)

lemma wp_delete_items [wp]:
  "hoare (\<lambda>s. E s \<and> Q () (s\<lparr>itinerary_items :=
              filter (\<lambda>i. \<not> cond i) (itinerary_items s)\<rparr>))
     (delete_items cond) Q E"
  unfolding delete_items_def by (rule wp_execute)

lemma wp_getTripById [wp]:
  "hoare (\<lambda>s. E s \<and> (case read_trip s tripId userId guestSessionId of
                        Inl e \<Rightarrow> True | Inr r \<Rightarrow> Q r s))
     (getTripById tripId userId guestSessionId) Q E"
  unfolding getTripById_def
  apply (rule hoare_pre)
   apply (rule wp)+
  apply (auto simp: read_trip_def split: list.splits)
  done

lemma wp_getTripWithPreferences [wp]:
  "hoare (\<lambda>s. E s \<and> (case read_preferences s tripId userId guestSessionId of
                        Inl e \<Rightarrow> True | Inr r \<Rightarrow> Q r s))
     (getTripWithPreferences tripId userId guestSessionId) Q E"
  unfolding getTripWithPreferences_def
  apply (rule hoare_pre)
   apply (rule wp)+
  apply (auto simp: read_preferences_def split: list.splits sum.splits)
  done

lemma wp_getItineraryByTripId [wp]:
  "hoare (\<lambda>s. E s \<and> (case read_itinerary s tripId of
                        Inl e \<Rightarrow> True | Inr r \<Rightarrow> Q r s))
     (getItineraryByTripId tripId) Q E"
  unfolding getItineraryByTripId_def Let_def
  apply (rule hoare_pre)
   apply (rule wp)+
  apply (auto simp: read_itinerary_def Let_def split: list.splits sum.splits)
  done

lemma wp_getVersion [wp]:
  "hoare (\<lambda>s. E s \<and> (\<forall>r. version_trip_id r = tripId \<and> int (version_no r) = v \<longrightarrow>
                          r \<in> set (itinerary_versions s) \<longrightarrow> Q r s))
     (getVersion tripId v) Q E"
  unfolding getVersion_def
  apply (rule hoare_pre)
   apply (rule wp)+
  apply (auto split: list.splits simp: filter_eq_Cons_iff)
  done

lemma wp_getItemById [wp]:
  "hoare (\<lambda>s. E s \<and> (\<forall>r. item_id r = itemId \<and> trip_id r = tripId \<longrightarrow>
                          r \<in> set (itinerary_items s) \<longrightarrow> Q r s))
     (getItemById itemId tripId) Q E"
  unfolding getItemById_def
  apply (rule hoare_pre)
   apply (rule wp)+
  apply (auto split: list.splits simp: filter_eq_Cons_iff)
  done

lemma wp_getDayItems [wp]:
  "hoare (\<lambda>s. E s \<and> Q (order_by_order (filter (\<lambda>i. trip_id i = tripId \<and> day i = dayNum)
                           (itinerary_items s))) s)
     (getDayItems tripId dayNum) Q E"
  unfolding getDayItems_def by (rule wp)

lemma wp_getPOIById [wp]:
  "hoare (\<lambda>s. E s \<and> (\<forall>r. poi_ident r = poiId \<longrightarrow> r \<in> set (pois s) \<longrightarrow> Q r s))
     (getPOIById poiId) Q E"
  unfolding getPOIById_def
  apply (rule hoare_pre)
   apply (rule wp)+
  apply (auto split: list.splits simp: filter_eq_Cons_iff)
  done

lemma wp_getEventSignalById [wp]:
  "hoare (\<lambda>s. E s \<and> (\<forall>r. event_id r = eventId \<longrightarrow> r \<in> set (event_signals s) \<longrightarrow> Q r s))
     (getEventSignalById eventId) Q E"
  unfolding getEventSignalById_def
  apply (rule hoare_pre)
   apply (rule wp)+
  apply (auto split: list.splits simp: filter_eq_Cons_iff)
  done

lemma wp_getProposal [wp]:
  "hoare (\<lambda>s. E s \<and> (\<forall>r. proposal_id r = proposalId \<longrightarrow> r \<in> set (replan_proposals s) \<longrightarrow> Q r s))
     (getProposal proposalId) Q E"
  unfolding getProposal_def
  apply (rule hoare_pre)
   apply (rule wp)+
  apply (auto split: list.splits simp: filter_eq_Cons_iff)
  done



subsection \<open>Invariants\<close>

lemma keepsD: "keeps I m \<Longrightarrow> I (view w) \<Longrightarrow> I (view (snd (m w)))"
  by (cases "fst (m w)") (auto simp: keeps_def hoare_def outcome_def)

named_theorems inv

lemma keeps_return [inv]: "keeps I (io_return x)"
  unfolding keeps_def by (rule hoare_return)

lemma keeps_throw [inv]: "keeps I (io_throw e)"
  unfolding keeps_def by (rule hoare_throw)

lemma keeps_bind [inv]: "keeps I m \<Longrightarrow> (\<And>x. keeps I (f x)) \<Longrightarrow> keeps I (io_bind m f)"
  unfolding keeps_def by (rule hoare_bind)

lemma keeps_catch [inv]: "keeps I m \<Longrightarrow> (\<And>e. keeps I (h e)) \<Longrightarrow> keeps I (io_catch m h)"
  unfolding keeps_def by (rule hoare_catch)

lemma keeps_option [inv]: "keeps I m \<Longrightarrow> keeps I (io_option m)"
  unfolding keeps_def by (rule hoare_option)

lemma keeps_discard [inv]: "keeps I m \<Longrightarrow> keeps I (discard m)"
  unfolding keeps_def by (rule hoare_discard)

lemma keeps_uuidv4 [inv]: "keeps I uuidv4"
  by (simp add: keeps_def hoare_def outcome_def uuidv4_def view_def)

lemma keeps_query:
  assumes "\<And>t r t'. I t \<Longrightarrow> stmt t = Inr (r, t') \<Longrightarrow> I t'"
  shows "keeps I (query stmt)"
  unfolding keeps_def
  by (rule hoare_query) (auto split: sum.splits intro: assms)

lemma keeps_select [inv]: "keeps I (select f)"
  unfolding select_def by (rule keeps_query) simp

lemma keeps_execute: "(\<And>t. I t \<Longrightarrow> I (f t)) \<Longrightarrow> keeps I (execute f)"
  unfolding execute_def by (rule keeps_query) auto

lemma keeps_if [inv]: "(c \<Longrightarrow> keeps I a) \<Longrightarrow> (\<not> c \<Longrightarrow> keeps I b) \<Longrightarrow> keeps I (if c then a else b)"
  by simp

lemma keeps_case_list [inv]:
  "keeps I a \<Longrightarrow> (\<And>x xs. keeps I (f x xs)) \<Longrightarrow> keeps I (case l of [] \<Rightarrow> a | x # xs \<Rightarrow> f x xs)"
  by (cases l) simp_all

lemma keeps_case_option [inv]:
  "keeps I a \<Longrightarrow> (\<And>x. keeps I (f x)) \<Longrightarrow> keeps I (case l of None \<Rightarrow> a | Some x \<Rightarrow> f x)"
  by (cases l) simp_all

lemma keeps_getTripById [inv]: "keeps I (getTripById a b c)"
  unfolding getTripById_def by (rule inv)+

lemma keeps_getTripWithPreferences [inv]: "keeps I (getTripWithPreferences a b c)"
  unfolding getTripWithPreferences_def by (rule inv)+

lemma keeps_getItineraryByTripId [inv]: "keeps I (getItineraryByTripId a)"
  unfolding getItineraryByTripId_def Let_def by (rule inv)+

lemma keeps_getVersion [inv]: "keeps I (getVersion a b)"
  unfolding getVersion_def by (rule inv)+

lemma keeps_getItemById [inv]: "keeps I (getItemById a b)"
  unfolding getItemById_def by (rule inv)+

lemma keeps_getDayItems [inv]: "keeps I (getDayItems a b)"
  unfolding getDayItems_def by (rule inv)+

lemma keeps_getPOIById [inv]: "keeps I (getPOIById a)"
  unfolding getPOIById_def by (rule inv)+

section \<open>The booking state machine and idempotent creation\<close>

lemma validTransitions_graph:
  "toStatus \<in> set (validTransitions fromStatus) \<longleftrightarrow> (fromStatus, toStatus) \<in> transition_graph"
  by (cases fromStatus; cases toStatus)
     (auto simp: validTransitions_def transition_graph_def split: BookingStatus.splits)

lemma validate_ok_iff:
  "validateStateTransition f t = Inr () \<longleftrightarrow> (f, t) \<in> transition_graph"
  by (simp add: validateStateTransition_def validTransitions_graph)

lemma update_only_on_edge:
  assumes "updateBookingStatus db bookingId newStatus reason updatedBy updates = (Inr b, db')"
  shows "\<exists>b0. getBookingById db bookingId = Inr b0 \<and>
              (Some (status b0), newStatus) \<in> transition_graph"
  using assms
  by (auto simp: updateBookingStatus_def validateStateTransition_def validTransitions_graph Let_def
           split: sum.splits if_splits)

lemma update_off_edge:
  assumes "getBookingById db bookingId = Inr b0"
      and "(Some (status b0), newStatus) \<notin> transition_graph"
  shows "updateBookingStatus db bookingId newStatus reason updatedBy updates
           = (Inl (ValidationError (transition_message (Some (status b0)) newStatus)), db)"
  using assms
  by (simp add: updateBookingStatus_def validateStateTransition_def validTransitions_graph)

lemma cancel_guard:
  assumes "getBookingById db bookingId = Inr b0" and "status b0 \<noteq> Confirmed"
  shows "cancelBooking getProvider db bookingId reason userId
           = (Inl (PlainError ''Can only cancel confirmed bookings''), db)"
  using assms by (simp add: cancelBooking_def)

lemma example_booking_found:
  "getBookingById (example_booking_db st) 7 = Inr (example_booking st)"
  by (simp add: getBookingById_def example_booking_db_def example_booking_def)

text \<open>
  Claim C2, as the specification states it: every transition off the graph, in particular
  cancelling a booking still in \<open>pending\<close>, fails with a Validation error.
  The cancel operation of the orchestrator does not: its own guard rejects a booking that
  is not \<open>confirmed\<close> with a plain \<open>Error\<close>, before the state machine is asked.
\<close>

theorem cancel_pending_counterexample:
  "\<not> is_ValidationError
       (fst (cancelBooking (\<lambda>p. None) (example_booking_db Pending) 7 None None))"
  by (simp add: cancelBooking_def example_booking_found example_booking_def
        is_ValidationError_def)

text \<open>
  Claim C2, amended: the state machine accepts exactly the edges of the graph
  null \<rightarrow> pending, pending \<rightarrow> confirmed | failed, failed \<rightarrow> pending,
  confirmed \<rightarrow> canceled | refunded, canceled \<rightarrow> refunded. A status update succeeds only
  along an edge; any other requested update fails with a Validation error and leaves the
  whole store (the booking's status and its history with it) unchanged. Cancelling a booking
  that is not \<open>confirmed\<close> (in particular one still \<open>pending\<close>) fails as well and leaves the
  store unchanged, but with the orchestrator's plain \<open>Error\<close>, not a Validation error.
\<close>

theorem booking_transitions:
  "(validateStateTransition fromStatus toStatus = Inr ()
      \<longleftrightarrow> (fromStatus, toStatus) \<in> transition_graph) \<and>
   (updateBookingStatus db bookingId newStatus reason updatedBy updates = (Inr b, db')
      \<longrightarrow> (\<exists>b0. getBookingById db bookingId = Inr b0 \<and>
                 (Some (status b0), newStatus) \<in> transition_graph)) \<and>
   (getBookingById db bookingId = Inr b1 \<and> (Some (status b1), newStatus) \<notin> transition_graph
      \<longrightarrow> updateBookingStatus db bookingId newStatus reason updatedBy updates
            = (Inl (ValidationError (transition_message (Some (status b1)) newStatus)), db)) \<and>
   (getBookingById db bookingId = Inr b1 \<and> status b1 \<noteq> Confirmed
      \<longrightarrow> cancelBooking getProvider db bookingId reason userId
            = (Inl (PlainError ''Can only cancel confirmed bookings''), db))"
proof (intro conjI impI)
  show "validateStateTransition fromStatus toStatus = Inr ()
          \<longleftrightarrow> (fromStatus, toStatus) \<in> transition_graph"
    by (rule validate_ok_iff)
next
  assume "updateBookingStatus db bookingId newStatus reason updatedBy updates = (Inr b, db')"
  then show "\<exists>b0. getBookingById db bookingId = Inr b0 \<and>
                 (Some (status b0), newStatus) \<in> transition_graph"
    by (rule update_only_on_edge)
next
  assume "getBookingById db bookingId = Inr b1 \<and>
          (Some (status b1), newStatus) \<notin> transition_graph"
  then show "updateBookingStatus db bookingId newStatus reason updatedBy updates
            = (Inl (ValidationError (transition_message (Some (status b1)) newStatus)), db)"
    by (simp add: update_off_edge)
next
  assume "getBookingById db bookingId = Inr b1 \<and> status b1 \<noteq> Confirmed"
  then show "cancelBooking getProvider db bookingId reason userId
            = (Inl (PlainError ''Can only cancel confirmed bookings''), db)"
    by (simp add: cancel_guard)
qed

theorem booking_transitions_witness:
  "getBookingById (example_booking_db Pending) 7 = Inr (example_booking Pending) \<and>
   (Some (status (example_booking Pending)), Canceled) \<notin> transition_graph \<and>
   status (example_booking Pending) \<noteq> Confirmed \<and>
   updateBookingStatus (example_booking_db Pending) 7 Canceled None None None
     = (Inl (ValidationError ''Invalid state transition from pending to canceled''),
        example_booking_db Pending) \<and>
   cancelBooking (\<lambda>p. None) (example_booking_db Pending) 7 None None
     = (Inl (PlainError ''Can only cancel confirmed bookings''), example_booking_db Pending)"
proof -
  have found: "getBookingById (example_booking_db Pending) 7 = Inr (example_booking Pending)"
    by (rule example_booking_found)
  have off: "(Some (status (example_booking Pending)), Canceled) \<notin> transition_graph"
    by (simp add: example_booking_def transition_graph_def)
  have pend: "status (example_booking Pending) \<noteq> Confirmed"
    by (simp add: example_booking_def)
  have msg: "transition_message (Some (status (example_booking Pending))) Canceled
               = ''Invalid state transition from pending to canceled''"
    by (simp add: transition_message_def status_name_def example_booking_def)
  from booking_transitions[where db = "example_booking_db Pending" and bookingId = 7
      and newStatus = Canceled and reason = None and updatedBy = None and updates = None
      and ?b1.0 = "example_booking Pending" and getProvider = "\<lambda>p. None" and userId = None]
    found off pend msg
  show ?thesis by simp
qed

text \<open>
  Claim C3 on the schema of the repository: two calls of \<open>createBooking\<close> with the same
  key are to return the same booking id. With a key that is not in the table yet no call
  returns a booking: the \<open>INSERT\<close> of \<open>createBooking\<close> gives \<open>provider_type\<close> no value, the
  column is \<open>NOT NULL\<close> without a default, so the statement is rejected, the call throws
  after drawing its two ids, and nothing is written; a second call with the key does the
  same. Only a key that some booking already has is answered, with that booking. The
  equation holds for every store and every request; the rest is the request with the
  key \<open>K1\<close> on a store whose only key is \<open>K0\<close>.
\<close>

theorem createBooking_insert_rejected:
  "createBooking db tripId request userId =
     (case getBookingByIdempotencyKey db (idempotency_key request) of
        Some existing \<Rightarrow> (Inr existing, db)
      | None \<Rightarrow> (Inl (NotNullViolation ''provider_type''),
                 db\<lparr>booking_uuids_drawn := booking_uuids_drawn db + 2\<rparr>)) \<and>
   getBookingByIdempotencyKey (example_booking_db Confirmed) (idempotency_key example_request)
     = None \<and>
   createBooking (example_booking_db Confirmed) 5 example_request None
     = (Inl (NotNullViolation ''provider_type''),
        (example_booking_db Confirmed)\<lparr>booking_uuids_drawn := 2\<rparr>) \<and>
   createBooking ((example_booking_db Confirmed)\<lparr>booking_uuids_drawn := 2\<rparr>) 5 example_request
       None
     = (Inl (NotNullViolation ''provider_type''),
        (example_booking_db Confirmed)\<lparr>booking_uuids_drawn := 4\<rparr>)"
proof -
  have eq: "createBooking db tripId request userId =
     (case getBookingByIdempotencyKey db (idempotency_key request) of
        Some existing \<Rightarrow> (Inr existing, db)
      | None \<Rightarrow> (Inl (NotNullViolation ''provider_type''),
                 db\<lparr>booking_uuids_drawn := booking_uuids_drawn db + 2\<rparr>))"
    for db tripId request userId
    by (simp add: createBooking_def validateStateTransition_def validTransitions_def Let_def
          insert_booking_def pending_row_def split: option.splits)
  have none: "getBookingByIdempotencyKey (example_booking_db Confirmed)
                (idempotency_key example_request) = None"
    by (simp add: getBookingByIdempotencyKey_def example_booking_db_def example_request_def)
  have none2: "getBookingByIdempotencyKey
                 ((example_booking_db Confirmed)\<lparr>booking_uuids_drawn := 2\<rparr>)
                 (idempotency_key example_request) = None"
    by (simp add: getBookingByIdempotencyKey_def example_booking_db_def example_request_def)
  have first: "createBooking (example_booking_db Confirmed) 5 example_request None
     = (Inl (NotNullViolation ''provider_type''),
        (example_booking_db Confirmed)\<lparr>booking_uuids_drawn := 2\<rparr>)"
    unfolding eq none by (simp add: example_booking_db_def)
  have second: "createBooking ((example_booking_db Confirmed)\<lparr>booking_uuids_drawn := 2\<rparr>)
       5 example_request None
     = (Inl (NotNullViolation ''provider_type''),
        (example_booking_db Confirmed)\<lparr>booking_uuids_drawn := 4\<rparr>)"
    unfolding eq none2 by (simp add: example_booking_db_def)
  from eq none first second show ?thesis by (intro conjI)
qed
section \<open>Events and the priority of triggers\<close>

lemmas io_defs = io_bind_def io_return_def io_throw_def io_catch_def io_option_def uuidv4_def
  query_def select_def execute_def discard_def now_def

lemmas read_defs = getItineraryByTripId_def getTripWithPreferences_def getTripById_def
  getVersion_def getItemById_def getDayItems_def getPOIById_def getEventSignalById_def
  getProposal_def

lemmas example_world_defs = example_world_def example_tables_def example_item_def

lemma ingestWeather_triple:
  "hoare (\<lambda>s. replan_triggers s = R0)
     (ingestWeatherEvent f tripId loc slot cond sev)
     (\<lambda>ev s. \<exists>tid. replan_triggers s = R0 @
         (if sev = High \<and> cond = ''heavy_rain''
          then [trigger_row tid tripId (event_id ev) ''Heavy rain affects outdoor activities'']
          else []))
     (\<lambda>s. True)"
  unfolding ingestWeatherEvent_def createReplanTrigger_def insert_event_def Let_def
  apply (rule hoare_pre)
   apply (rule wp)+
  apply (auto simp: trigger_row_def split: sum.splits option.splits)
  done

lemma ingestClosure_triple:
  "hoare (\<lambda>s. replan_triggers s = R0)
     (ingestClosureEvent f tripId loc slot details sev)
     (\<lambda>ev s. \<exists>tid. replan_triggers s = R0 @
         (if sev = High \<or> sev = Medium
          then [trigger_row tid tripId (event_id ev) ''Place closure affects itinerary'']
          else []))
     (\<lambda>s. True)"
  unfolding ingestClosureEvent_def createReplanTrigger_def insert_event_def Let_def
  apply (rule hoare_pre)
   apply (rule wp)+
  apply (auto simp: trigger_row_def split: sum.splits option.splits)
  done

lemma example_weather_run:
  "fst (ingestWeatherEvent (\<lambda>i l s e. [10]) 1 (1375 / 100, 1005 / 10) (0, 1) ''heavy_rain'' High
          example_world)
     = Inr \<lparr>event_id = 1000, event_trip_id = 1, event_type = Weather, severity = High,
            event_location = (1375 / 100, 1005 / 10), time_slot = (0, 1),
            event_details = ''heavy_rain'', affected_items = [10],
            event_processed = False, replan_triggered = False\<rparr>"
  by (simp add: ingestWeatherEvent_def io_defs read_defs example_world_defs
        createReplanTrigger_def insert_event_def Let_def truthy_def)

text \<open>
  Claim C9, as the specification states it: a weather event with severity high and
  condition heavy rain emits a trigger whose priority matches the severity, that is,
  priority high. The code emits the trigger with priority medium: neither ingest
  operation passes a priority to \<open>createReplanTrigger\<close>, whose default is medium.
\<close>

theorem heavy_rain_trigger_counterexample:
  "map priority (replan_triggers (store (snd
     (ingestWeatherEvent (\<lambda>i l s e. [10]) 1 (1375 / 100, 1005 / 10) (0, 1) ''heavy_rain'' High
        example_world)))) = [Medium] \<and>
   High \<notin> set (map priority (replan_triggers (store (snd
     (ingestWeatherEvent (\<lambda>i l s e. [10]) 1 (1375 / 100, 1005 / 10) (0, 1) ''heavy_rain'' High
        example_world)))))"
  by (simp add: ingestWeatherEvent_def io_defs read_defs example_world_defs
        createReplanTrigger_def insert_event_def Let_def truthy_def)

text \<open>
  Claim C9, amended: an ingest that returns has added exactly one trigger for the event
  when the event is a weather event with severity high and condition heavy rain, or a
  closure event with severity medium or high, and no trigger otherwise. The trigger
  belongs to the trip and to the returned event signal, is unprocessed, and its priority
  is always medium, whatever the severity: it matches the severity only for a closure of
  medium severity.
\<close>

theorem ingest_trigger_priority:
  "(ingestWeatherEvent f tripId loc slot cond sev w = (Inr ev, w') \<longrightarrow>
      (\<exists>tid. replan_triggers (store w') = replan_triggers (store w) @
         (if sev = High \<and> cond = ''heavy_rain''
          then [trigger_row tid tripId (event_id ev) ''Heavy rain affects outdoor activities'']
          else []))) \<and>
   (ingestClosureEvent f tripId loc slot details sev w = (Inr ev, w') \<longrightarrow>
      (\<exists>tid. replan_triggers (store w') = replan_triggers (store w) @
         (if sev = High \<or> sev = Medium
          then [trigger_row tid tripId (event_id ev) ''Place closure affects itinerary'']
          else []))) \<and>
   priority (trigger_row tid tripId eventId reason) = Medium"
proof (intro conjI impI)
  assume run: "ingestWeatherEvent f tripId loc slot cond sev w = (Inr ev, w')"
  have "replan_triggers (view w) = replan_triggers (store w)" by (simp add: view_def)
  from hoare_Inr[OF ingestWeather_triple this run]
  show "\<exists>tid. replan_triggers (store w') = replan_triggers (store w) @
         (if sev = High \<and> cond = ''heavy_rain''
          then [trigger_row tid tripId (event_id ev) ''Heavy rain affects outdoor activities'']
          else [])"
    by (simp add: view_def)
next
  assume run: "ingestClosureEvent f tripId loc slot details sev w = (Inr ev, w')"
  have "replan_triggers (view w) = replan_triggers (store w)" by (simp add: view_def)
  from hoare_Inr[OF ingestClosure_triple this run]
  show "\<exists>tid. replan_triggers (store w') = replan_triggers (store w) @
         (if sev = High \<or> sev = Medium
          then [trigger_row tid tripId (event_id ev) ''Place closure affects itinerary'']
          else [])"
    by (simp add: view_def)
next
  show "priority (trigger_row tid tripId eventId reason) = Medium"
    by (simp add: trigger_row_def)
qed

theorem ingest_trigger_priority_witness:
  "\<exists>ev tid. fst (ingestWeatherEvent (\<lambda>i l s e. [10]) 1 (1375 / 100, 1005 / 10) (0, 1)
                   ''heavy_rain'' High example_world) = Inr ev \<and>
     replan_triggers (store (snd
       (ingestWeatherEvent (\<lambda>i l s e. [10]) 1 (1375 / 100, 1005 / 10) (0, 1) ''heavy_rain'' High
          example_world)))
     = [trigger_row tid 1 (event_id ev) ''Heavy rain affects outdoor activities''] \<and>
     priority (trigger_row tid 1 (event_id ev) ''Heavy rain affects outdoor activities'') = Medium"
proof -
  let ?run = "ingestWeatherEvent (\<lambda>i l s e. [10]) 1 (1375 / 100, 1005 / 10) (0, 1)
                ''heavy_rain'' High example_world"
  obtain ev where ev: "fst ?run = Inr ev" using example_weather_run by blast
  then have run: "?run = (Inr ev, snd ?run)" by (simp add: prod_eq_iff)
  have none: "replan_triggers (store example_world) = []"
    by (simp add: example_world_defs)
  have "\<exists>tid. replan_triggers (store (snd ?run)) = replan_triggers (store example_world) @
         (if High = High \<and> ''heavy_rain'' = ''heavy_rain''
          then [trigger_row tid 1 (event_id ev) ''Heavy rain affects outdoor activities'']
          else [])"
    using ingest_trigger_priority[where f = "\<lambda>i l s e. [10]" and tripId = 1
      and loc = "(1375 / 100, 1005 / 10)" and slot = "(0, 1)" and cond = "''heavy_rain''"
      and sev = High and w = example_world and ev = ev and w' = "snd ?run", THEN conjunct1]
      run by (rule mp)
  then obtain tid where "replan_triggers (store (snd ?run))
      = [trigger_row tid 1 (event_id ev) ''Heavy rain affects outdoor activities'']"
    unfolding none by auto
  with ev show ?thesis by (auto simp: trigger_row_def)
qed

section \<open>Applying a proposal\<close>

lemmas apply_defs = applyProposal_def apply_in_transaction_def applyChanges_def createSnapshot_def
  insert_item_def update_items_def delete_items_def
  insert_version_def markTriggerProcessed_def recalculateDayOrder_def affectedDays_def
  findItemInItinerary_def calculateNewEndTime_def addMinutes_def js_rem_def rank_in_def
  group_days_def order_by_day_order_def order_by_order_def order_by_start_time_def
  calculateDayCost_def calculateDayTravelTime_def calculateTotalCost_def replacement_row_def
  getDayFromTime_def calculateDuration_def minutes_of_def added_row_def

lemmas world_defs = world_with_def example_world_defs mk_item_def example_preferences_def
  reflow_items_def move_world_def move_proposal_def replace_world_def replace_proposal_def
  schedule_def no_control_def

lemma wp_of_spec:
  assumes "\<And>s0. hoare (\<lambda>s. s = s0) m (RQ s0) (RE s0)"
  shows "hoare (\<lambda>s. (\<forall>x s'. RQ s x s' \<longrightarrow> Q x s') \<and> (\<forall>s'. RE s s' \<longrightarrow> E s')) m Q E"
proof (rule hoareI)
  fix w assume pre: "(\<forall>x s'. RQ (view w) x s' \<longrightarrow> Q x s') \<and> (\<forall>s'. RE (view w) s' \<longrightarrow> E s')"
  have "outcome (RQ (view w)) (RE (view w)) (m w)"
    by (rule hoareD[OF assms]) simp
  with pre show "outcome Q E (m w)"
    by (cases "fst (m w)") (simp_all add: outcome_def del: split_paired_All)
qed

lemma items_only_refl [simp]: "items_only s s"
  by (auto simp: items_only_def intro!: exI[where x="itinerary_items s"])

lemma items_only_with [simp]: "items_only s (with_items s its)"
  by (auto simp: items_only_def with_items_def)

lemma items_only_trans: "items_only a b \<Longrightarrow> items_only b c \<Longrightarrow> items_only a c"
  by (auto simp: items_only_def)

lemma with_items_with [simp]: "with_items (with_items s a) b = with_items s b"
  by (simp add: with_items_def)

lemma items_of_with [simp]: "itinerary_items (with_items s a) = a"
  by (simp add: with_items_def)

lemma with_items_same [simp]: "with_items s (itinerary_items s) = s"
  by (simp add: with_items_def)

lemma remove_each_Cons:
  "remove_each tripId (r # rs) =
     io_bind (delete_items (\<lambda>i. item_id i = removed_item_id r \<and> trip_id i = tripId))
       (\<lambda>u. remove_each tripId rs)"
  by (rule ext) (simp add: io_bind_def split: prod.splits sum.splits)

lemma remove_each_Nil: "remove_each tripId [] = io_return ()"
  by (rule ext) (simp add: io_return_def)

lemma remove_each_spec:
  "hoare (\<lambda>s. s = s0) (remove_each tripId rs)
     (\<lambda>u s. s = with_items s0 (items_after_remove tripId rs (itinerary_items s0)))
     (items_only s0)"
proof (induction rs arbitrary: s0)
  case Nil
  show ?case unfolding remove_each_Nil by (rule hoare_pre, rule wp) simp
next
  case (Cons r rs)
  show ?case
    unfolding remove_each_Cons
    apply (rule hoare_pre)
     apply (rule wp_bind)
      apply (rule wp_of_spec[OF Cons.IH])
     apply (rule wp)
    apply (auto simp: with_items_def items_only_def)
    done
qed

lemma replace_each_Cons:
  "replace_each tripId itinerary (r # rs) =
     io_bind (delete_items (\<lambda>i. item_id i = old_item_id r \<and> trip_id i = tripId)) (\<lambda>u.
     io_bind (insert_item (replacement_row tripId itinerary (new_item r))) (\<lambda>u.
       replace_each tripId itinerary rs))"
  by (rule ext) (simp add: io_bind_def split: prod.splits sum.splits)

lemma replace_each_Nil: "replace_each tripId itinerary [] = io_return ()"
  by (rule ext) (simp add: io_return_def)

lemma replace_each_spec:
  "hoare (\<lambda>s. s = s0) (replace_each tripId itinerary rs)
     (\<lambda>u s. s = with_items s0 (items_after_replace tripId itinerary rs (itinerary_items s0)))
     (items_only s0)"
proof (induction rs arbitrary: s0)
  case Nil
  show ?case unfolding replace_each_Nil by (rule hoare_pre, rule wp) simp
next
  case (Cons r rs)
  show ?case
    unfolding replace_each_Cons
    apply (rule hoare_pre)
     apply (rule wp_bind)
      apply (rule wp_bind)
       apply (rule wp_of_spec[OF Cons.IH])
      apply (rule wp)+
    apply (auto simp: with_items_def items_only_def)
    done
qed

lemma move_each_Cons:
  "move_each tripId itinerary (m # ms) =
     io_bind (update_items (\<lambda>i. item_id i = moved_item_id m \<and> trip_id i = tripId)
                (moved_to itinerary m)) (\<lambda>u. move_each tripId itinerary ms)"
  by (rule ext) (simp add: io_bind_def moved_to_def[abs_def] split: prod.splits sum.splits)

lemma move_each_Nil: "move_each tripId itinerary [] = io_return ()"
  by (rule ext) (simp add: io_return_def)

lemma move_each_spec:
  "hoare (\<lambda>s. s = s0) (move_each tripId itinerary ms)
     (\<lambda>u s. s = with_items s0 (items_after_move tripId itinerary ms (itinerary_items s0)))
     (items_only s0)"
proof (induction ms arbitrary: s0)
  case Nil
  show ?case unfolding move_each_Nil by (rule hoare_pre, rule wp) simp
next
  case (Cons m ms)
  show ?case
    unfolding move_each_Cons
    apply (rule hoare_pre)
     apply (rule wp_bind)
      apply (rule wp_of_spec[OF Cons.IH])
     apply (rule wp)
    apply (auto simp: with_items_def items_only_def)
    done
qed

lemma add_each_Cons:
  "add_each tripId (a # as) =
     io_bind (insert_item (added_row tripId a)) (\<lambda>u. add_each tripId as)"
  by (rule ext) (simp add: io_bind_def split: prod.splits sum.splits)

lemma add_each_Nil: "add_each tripId [] = io_return ()"
  by (rule ext) (simp add: io_return_def)

lemma add_each_spec:
  "hoare (\<lambda>s. s = s0) (add_each tripId as)
     (\<lambda>u s. s = with_items s0 (items_after_add tripId as (itinerary_items s0)))
     (items_only s0)"
proof (induction as arbitrary: s0)
  case Nil
  show ?case unfolding add_each_Nil by (rule hoare_pre, rule wp) simp
next
  case (Cons a as)
  show ?case
    unfolding add_each_Cons
    apply (rule hoare_pre)
     apply (rule wp_bind)
      apply (rule wp_of_spec[OF Cons.IH])
     apply (rule wp)
    apply (auto simp: with_items_def items_only_def)
    done
qed

lemma recalculateDayOrder_eq:
  "recalculateDayOrder tripId dayNum =
     execute (\<lambda>t. t\<lparr>itinerary_items := reorder_day tripId dayNum (itinerary_items t)\<rparr>)"
  by (simp add: recalculateDayOrder_def reorder_day_def Let_def)

lemma reorder_each_Cons:
  "reorder_each tripId (d # ds) =
     io_bind (recalculateDayOrder tripId d) (\<lambda>u. reorder_each tripId ds)"
  by (rule ext) (simp add: io_bind_def split: prod.splits sum.splits)

lemma reorder_each_Nil: "reorder_each tripId [] = io_return ()"
  by (rule ext) (simp add: io_return_def)

lemma reorder_each_spec:
  "hoare (\<lambda>s. s = s0) (reorder_each tripId ds)
     (\<lambda>u s. s = with_items s0 (items_after_reorder tripId ds (itinerary_items s0)))
     (items_only s0)"
proof (induction ds arbitrary: s0)
  case Nil
  show ?case unfolding reorder_each_Nil by (rule hoare_pre, rule wp) simp
next
  case (Cons d ds)
  show ?case
    unfolding reorder_each_Cons recalculateDayOrder_eq
    apply (rule hoare_pre)
     apply (rule wp_bind)
      apply (rule wp_of_spec[OF Cons.IH])
     apply (rule wp)
    apply (auto simp: with_items_def items_only_def)
    done
qed

lemma items_only_with_left [simp]: "items_only (with_items s0 x) s = items_only s0 s"
  by (auto simp: items_only_def with_items_def)

lemma applyChanges_spec:
  "hoare (\<lambda>s. s = s0) (applyChanges proposal itinerary)
     (\<lambda>u s. s = with_items s0 (items_after_changes proposal itinerary (itinerary_items s0)))
     (items_only s0)"
  unfolding applyChanges_def Let_def
  apply (rule hoare_pre)
   apply (rule wp_bind)+
       apply (rule wp_of_spec[OF reorder_each_spec])
      apply (rule wp_of_spec[OF add_each_spec])
     apply (rule wp_of_spec[OF move_each_spec])
    apply (rule wp_of_spec[OF replace_each_spec])
   apply (rule wp_of_spec[OF remove_each_spec])
  apply (auto simp: items_after_changes_def Let_def intro: items_only_trans)
  done



subsection \<open>The apply never gets past its snapshot\<close>

lemma hoare_unreachable: "hoare (\<lambda>s. False) m Q E"
  by (simp add: hoare_def)

lemma throws_bind_first:
  assumes "hoare P m (\<lambda>x s. False) E"
  shows "hoare P (io_bind m f) Q E"
  by (rule hoare_bind[OF assms]) (rule hoare_unreachable)

lemma throws_bind_after:
  assumes "keeps I m" "\<And>x. hoare I (f x) Q I"
  shows "hoare I (io_bind m f) Q I"
  using assms unfolding keeps_def by (rule hoare_bind)

lemma throws_case_option:
  assumes "hoare P a Q E" "\<And>x. hoare P (f x) Q E"
  shows "hoare P (case v of None \<Rightarrow> a | Some x \<Rightarrow> f x) Q E"
  using assms by (cases v) simp_all

lemma keeps_getProposal [inv]: "keeps I (getProposal a)"
  unfolding getProposal_def by (rule inv)+

text \<open>The snapshot of change type \<open>replan\<close> is rejected by the table, so
  \<open>createSnapshot\<close> with that change type throws and writes nothing.\<close>

lemma insert_version_replan:
  "change_type row = Replan
   \<Longrightarrow> hoare (\<lambda>s. s = s0) (insert_version row) (\<lambda>r s. False) (\<lambda>s. s = s0)"
  unfolding insert_version_def by (rule hoare_query) simp

lemma createSnapshot_replan_throws:
  "hoare (\<lambda>s. s = s0) (createSnapshot tripId Replan changedBy previousVersion)
     (\<lambda>r s. False) (\<lambda>s. s = s0)"
  unfolding createSnapshot_def Let_def
  apply (rule throws_bind_after)
   apply (rule inv)
  apply (rule throws_case_option)
   apply (rule hoare_throw)
  apply (rule throws_bind_after)
   apply (rule inv)
  apply (rule throws_bind_first)
  apply (rule insert_version_replan)
  apply simp
  done

lemma applyProposal_throws:
  "hoare (\<lambda>s. s = s0) (applyProposal control request userId) (\<lambda>r s. False) (\<lambda>s. s = s0)"
  unfolding applyProposal_def
  apply (rule throws_bind_after)
   apply (rule inv)
  apply (rule throws_bind_after)
   apply (rule inv)
  apply (rule throws_case_option)
   apply (rule hoare_throw)
  apply (rule throws_bind_after)
   apply (rule inv)+
  apply (rule throws_bind_first)
  apply (rule createSnapshot_replan_throws)
  done

lemma applyProposal_outcome:
  "(\<exists>e. fst (applyProposal control request userId w) = Inl e) \<and>
   store (snd (applyProposal control request userId w)) = store w"
proof -
  have "outcome (\<lambda>r s. False) (\<lambda>s. s = view w) (applyProposal control request userId w)"
    by (rule hoareD[OF applyProposal_throws]) simp
  then show ?thesis
    by (cases "fst (applyProposal control request userId w)")
       (simp_all add: outcome_def view_def)
qed

lemma move_world_apply:
  "fst (applyProposal no_control \<lparr>request_proposal_id = 70, request_idempotency_key = ''k''\<rparr>
          None move_world) = Inl (CheckViolation ''change_type'') \<and>
   fst (applyProposal no_control \<lparr>request_proposal_id = 70, request_idempotency_key = ''k''\<rparr>
          None (move_world\<lparr>fail_in := Some 5\<rparr>)) = Inl (CheckViolation ''change_type'') \<and>
   fst (applyProposal no_control \<lparr>request_proposal_id = 70, request_idempotency_key = ''k''\<rparr>
          None (move_world\<lparr>fail_in := Some 7\<rparr>)) = Inl StoreFailure"
  by (simp add: io_defs read_defs apply_defs world_defs truthy_def Let_def)

text \<open>
  Claim C1: whatever the stored proposals, the request, the forced failure of the store
  and the behaviour of the transaction statements are, an apply surfaces an error and
  leaves every table as it was, so the items, the version of the itinerary and the
  snapshots are those of the state before. (On the schema of the repository this is all
  an apply does: it throws at the latest when it inserts its snapshot, whose change type
  \<open>replan\<close> the table does not take, and that statement stands before \<open>BEGIN\<close> and before
  every write.)
\<close>

theorem applyProposal_no_mutation:
  "(\<exists>e. fst (applyProposal control request userId w) = Inl e) \<and>
   store (snd (applyProposal control request userId w)) = store w \<and>
   itinerary_items (store (snd (applyProposal control request userId w)))
     = itinerary_items (store w) \<and>
   itineraries (store (snd (applyProposal control request userId w))) = itineraries (store w) \<and>
   itinerary_versions (store (snd (applyProposal control request userId w)))
     = itinerary_versions (store w)"
  using applyProposal_outcome[of control request userId w] by simp

theorem applyProposal_no_mutation_witness:
  "fst (applyProposal no_control \<lparr>request_proposal_id = 70, request_idempotency_key = ''k''\<rparr>
          None (move_world\<lparr>fail_in := Some 7\<rparr>)) = Inl StoreFailure \<and>
   store (snd (applyProposal no_control
                 \<lparr>request_proposal_id = 70, request_idempotency_key = ''k''\<rparr> None
                 (move_world\<lparr>fail_in := Some 7\<rparr>)))
     = store (move_world\<lparr>fail_in := Some 7\<rparr>) \<and>
   fst (applyProposal no_control \<lparr>request_proposal_id = 70, request_idempotency_key = ''k''\<rparr>
          None move_world) = Inl (CheckViolation ''change_type'') \<and>
   store (snd (applyProposal no_control
                 \<lparr>request_proposal_id = 70, request_idempotency_key = ''k''\<rparr> None move_world))
     = store move_world"
  using move_world_apply
    applyProposal_no_mutation[of no_control
      "\<lparr>request_proposal_id = 70, request_idempotency_key = ''k''\<rparr>" None
      "move_world\<lparr>fail_in := Some 7\<rparr>"]
    applyProposal_no_mutation[of no_control
      "\<lparr>request_proposal_id = 70, request_idempotency_key = ''k''\<rparr>" None move_world]
  by (intro conjI) blast+

subsection \<open>Replacements and moves\<close>

lemma replace_keeps:
  "x \<in> set its \<Longrightarrow> item_id x \<notin> old_item_id ` set rs
   \<Longrightarrow> x \<in> set (items_after_replace tripId itinerary rs its)"
  by (induction rs arbitrary: its) auto

lemma replace_inserts:
  "r \<in> set rs \<Longrightarrow> new_id (new_item r) \<notin> old_item_id ` set rs
   \<Longrightarrow> replacement_row tripId itinerary (new_item r)
         \<in> set (items_after_replace tripId itinerary rs its)"
proof (induction rs arbitrary: its)
  case Nil
  then show ?case by simp
next
  case (Cons a rs)
  show ?case
  proof (cases "r = a")
    case True
    have "item_id (replacement_row tripId itinerary (new_item r)) \<notin> old_item_id ` set rs"
      using Cons.prems(2) by (simp add: replacement_row_def)
    then show ?thesis using True by (simp add: replace_keeps)
  next
    case False
    then show ?thesis using Cons by simp
  qed
qed

lemma move_keeps:
  "x \<in> set its \<Longrightarrow> item_id x \<notin> moved_item_id ` set ms
   \<Longrightarrow> x \<in> set (items_after_move tripId itinerary ms its)"
  by (induction ms arbitrary: its) auto

lemma add_keeps: "x \<in> set its \<Longrightarrow> x \<in> set (items_after_add tripId as its)"
  by (induction as arbitrary: its) auto

lemma reorder_day_keeps:
  "x\<lparr>order_no := n\<rparr> \<in> set its \<Longrightarrow> \<exists>m. x\<lparr>order_no := m\<rparr> \<in> set (reorder_day tripId d its)"
proof -
  assume a: "x\<lparr>order_no := n\<rparr> \<in> set its"
  let ?ranked = "order_by_start_time (filter (\<lambda>i. trip_id i = tripId \<and> day i = d) its)"
  let ?f = "\<lambda>i. if trip_id i = tripId \<and> day i = d
                  then i\<lparr>order_no := rank_in ?ranked (item_id i)\<rparr> else i"
  have eq: "reorder_day tripId d its = map ?f its"
    unfolding reorder_day_def Let_def ..
  have "?f (x\<lparr>order_no := n\<rparr>) \<in> ?f ` set its" using a by (rule imageI)
  then have "?f (x\<lparr>order_no := n\<rparr>) \<in> set (reorder_day tripId d its)"
    unfolding eq set_map .
  moreover have "\<exists>m. ?f (x\<lparr>order_no := n\<rparr>) = x\<lparr>order_no := m\<rparr>"
    by (cases "trip_id x = tripId \<and> day x = d") auto
  ultimately show ?thesis by metis
qed

lemma reorder_keeps:
  "x\<lparr>order_no := n\<rparr> \<in> set its
   \<Longrightarrow> \<exists>m. x\<lparr>order_no := m\<rparr> \<in> set (items_after_reorder tripId ds its)"
proof (induction ds arbitrary: its n)
  case Nil
  then show ?case by auto
next
  case (Cons d ds)
  from reorder_day_keeps[OF Cons.prems] obtain m
    where "x\<lparr>order_no := m\<rparr> \<in> set (reorder_day tripId d its)" by blast
  from Cons.IH[OF this] show ?case by simp
qed

lemma changes_insert_replacement:
  assumes "r \<in> set (replaced_items (changes proposal))"
      "new_id (new_item r) \<notin> old_item_id ` set (replaced_items (changes proposal))"
      "new_id (new_item r) \<notin> moved_item_id ` set (moved_items (changes proposal))"
  shows "\<exists>m. (replacement_row (proposal_trip_id proposal) itinerary (new_item r))\<lparr>order_no := m\<rparr>
            \<in> set (items_after_changes proposal itinerary its)"
proof -
  let ?row = "replacement_row (proposal_trip_id proposal) itinerary (new_item r)"
  have id: "item_id ?row = new_id (new_item r)" by (simp add: replacement_row_def)
  have "?row \<in> set (items_after_add (proposal_trip_id proposal) (added_items (changes proposal))
           (items_after_move (proposal_trip_id proposal) itinerary (moved_items (changes proposal))
              (items_after_replace (proposal_trip_id proposal) itinerary
                 (replaced_items (changes proposal))
                 (items_after_remove (proposal_trip_id proposal)
                    (removed_items (changes proposal)) its))))"
    by (intro add_keeps move_keeps replace_inserts assms(1,2)) (simp add: id assms(3))
  moreover have "?row = ?row\<lparr>order_no := order_no ?row\<rparr>" by simp
  ultimately show ?thesis
    unfolding items_after_changes_def Let_def
    by (metis reorder_keeps)
qed

text \<open>
  Claim C10, for the function that makes the changes: after an \<open>applyChanges\<close> that
  returns, every replacement of the proposal is in the item table with the times of the
  proposal and with the day that \<open>getDayFromTime\<close> gives, the day number of the first day
  of the itinerary passed in, or 1 when that itinerary has no day or its first day has
  number 0; the day of the replaced item plays no part. (The row is looked up by its id:
  a replacement whose id is also the id of an item that the same proposal replaces or
  moves is left aside, since the later statements delete or move it.)
\<close>

theorem replacement_on_first_day:
  assumes "applyChanges proposal itinerary w = (Inr u, w')"
  shows "\<forall>r \<in> set (replaced_items (changes proposal)).
           new_id (new_item r) \<notin> old_item_id ` set (replaced_items (changes proposal)) \<and>
           new_id (new_item r) \<notin> moved_item_id ` set (moved_items (changes proposal)) \<longrightarrow>
           (\<exists>i \<in> set (itinerary_items (store w')).
              item_id i = new_id (new_item r) \<and>
              trip_id i = proposal_trip_id proposal \<and>
              start_time i = new_start_time (new_item r) \<and>
              end_time i = new_end_time (new_item r) \<and>
              day i = getDayFromTime itinerary (new_start_time (new_item r)) \<and>
              day i = (case days itinerary of
                         [] \<Rightarrow> 1
                       | d # rest \<Rightarrow> if day_no d = 0 then 1 else day_no d))"
proof (intro ballI impI)
  fix r
  assume r: "r \<in> set (replaced_items (changes proposal))"
    and fresh: "new_id (new_item r) \<notin> old_item_id ` set (replaced_items (changes proposal)) \<and>
           new_id (new_item r) \<notin> moved_item_id ` set (moved_items (changes proposal))"
  have "view w = view w" by simp
  from hoare_Inr[OF applyChanges_spec, where ?s0.1 = "view w", OF this assms]
  have after: "itinerary_items (store w')
                 = items_after_changes proposal itinerary (itinerary_items (store w))"
    by (simp add: view_def with_items_def)
  from changes_insert_replacement[OF r] fresh obtain m where
    "(replacement_row (proposal_trip_id proposal) itinerary (new_item r))\<lparr>order_no := m\<rparr>
        \<in> set (itinerary_items (store w'))"
    unfolding after by blast
  then show "\<exists>i \<in> set (itinerary_items (store w')).
              item_id i = new_id (new_item r) \<and>
              trip_id i = proposal_trip_id proposal \<and>
              start_time i = new_start_time (new_item r) \<and>
              end_time i = new_end_time (new_item r) \<and>
              day i = getDayFromTime itinerary (new_start_time (new_item r)) \<and>
              day i = (case days itinerary of
                         [] \<Rightarrow> 1
                       | d # rest \<Rightarrow> if day_no d = 0 then 1 else day_no d)"
    by (rule bexI[rotated]) (simp add: replacement_row_def getDayFromTime_def)
qed

lemma replace_world_itinerary:
  "fst (getItineraryByTripId 1 replace_world) = Inr (Some (itinerary_of replace_world 1)) \<and>
   map (\<lambda>d. (day_no d, map name (items d))) (days (itinerary_of replace_world 1))
     = [(1, [''Y'']), (2, [''W''])] \<and>
   map day_no (days (itinerary_of replace_world 1)) = [1, 2]"
  by (simp add: itinerary_of_def io_defs read_defs apply_defs world_defs truthy_def Let_def)

lemma replace_world_run:
  "fst (applyChanges replace_proposal (itinerary_of replace_world 1) replace_world) = Inr ()"
  by (simp add: itinerary_of_def io_defs read_defs apply_defs world_defs truthy_def Let_def)

theorem replacement_on_first_day_witness:
  "fst (getItineraryByTripId 1 replace_world) = Inr (Some (itinerary_of replace_world 1)) \<and>
   map (\<lambda>d. (day_no d, map name (items d))) (days (itinerary_of replace_world 1))
     = [(1, [''Y'']), (2, [''W''])] \<and>
   map old_item_name (replaced_items (changes replace_proposal)) = [''W''] \<and>
   fst (applyChanges replace_proposal (itinerary_of replace_world 1) replace_world) = Inr () \<and>
   (\<exists>i \<in> set (itinerary_items (store (snd
        (applyChanges replace_proposal (itinerary_of replace_world 1) replace_world)))).
      item_id i = 23 \<and> start_time i = (10, 0) \<and> end_time i = (11, 0) \<and> day i = 1)"
proof -
  let ?it = "itinerary_of replace_world 1"
  let ?run = "applyChanges replace_proposal ?it replace_world"
  let ?e = "\<lparr>old_item_id = 22, old_item_name = ''W'',
             new_item = \<lparr>new_id = 23, new_name = ''V'', new_poi_id = None,
                         new_start_time = (10, 0), new_end_time = (11, 0),
                         new_location = None\<rparr>\<rparr>"
  note it = replace_world_itinerary
  have f1: "fst ?run = Inr ()" by (rule replace_world_run)
  then have run: "?run = (Inr (), snd ?run)" by (simp add: prod_eq_iff)
  have rs: "replaced_items (changes replace_proposal) = [?e]"
       "moved_items (changes replace_proposal) = []"
    by (simp_all add: replace_proposal_def)
  note it[THEN conjunct2, THEN conjunct2]
  then have first: "(case days ?it of
                       [] \<Rightarrow> 1
                     | d # rest \<Rightarrow> if day_no d = 0 then 1 else day_no d) = 1"
    by (cases "days ?it") auto
  have "\<exists>i \<in> set (itinerary_items (store (snd ?run))).
              item_id i = new_id (new_item ?e) \<and>
              trip_id i = proposal_trip_id replace_proposal \<and>
              start_time i = new_start_time (new_item ?e) \<and>
              end_time i = new_end_time (new_item ?e) \<and>
              day i = getDayFromTime ?it (new_start_time (new_item ?e)) \<and>
              day i = (case days ?it of
                         [] \<Rightarrow> 1
                       | d # rest \<Rightarrow> if day_no d = 0 then 1 else day_no d)"
    by (rule replacement_on_first_day[OF run, rule_format]) (simp_all add: rs)
  then obtain i where i: "i \<in> set (itinerary_items (store (snd ?run)))"
      "item_id i = new_id (new_item ?e)" "start_time i = new_start_time (new_item ?e)"
      "end_time i = new_end_time (new_item ?e)"
      "day i = (case days ?it of
                  [] \<Rightarrow> 1
                | d # rest \<Rightarrow> if day_no d = 0 then 1 else day_no d)"
    by blast
  from i(2,3,4) i(5)[unfolded first]
  have "item_id i = 23 \<and> start_time i = (10, 0) \<and> end_time i = (11, 0) \<and> day i = 1"
    by simp
  with i(1) have found: "\<exists>i \<in> set (itinerary_items (store (snd ?run))).
      item_id i = 23 \<and> start_time i = (10, 0) \<and> end_time i = (11, 0) \<and> day i = 1"
    by (rule bexI[rotated])
  have names: "map old_item_name (replaced_items (changes replace_proposal)) = [''W'']"
    by (simp add: rs)
  note it1 = it[THEN conjunct1] and it2 = it[THEN conjunct2, THEN conjunct1]
  from it1 it2 names f1 found show ?thesis by (intro conjI)
qed

text \<open>
  Claim C8 on a concrete proposal: item Y lasts 90 minutes (10:00-11:30 on day 1) and
  the proposal moves it to 13:00 on day 2. After \<open>applyChanges\<close>, whatever itinerary it is
  given, the day and the start of Y are those of the proposal, its \<open>duration_minutes\<close> is
  still 90, and its end is 15:00, not 14:30: \<open>calculateNewEndTime\<close> adds 120 minutes to the
  new start whatever the item is.
\<close>

theorem move_uses_default_duration:
  "fst (applyChanges move_proposal itinerary move_world) = Inr () \<and>
   schedule move_world
     = [(''Y'', 1, (10, 0), (11, 30), 90), (''W'', 2, (10, 0), (11, 0), 60)] \<and>
   moved_items (changes move_proposal)
     = [\<lparr>moved_item_id = 21, old_day = 1, new_day = 2, old_time = (10, 0),
         new_time = (13, 0)\<rparr>] \<and>
   schedule (snd (applyChanges move_proposal itinerary move_world))
     = [(''Y'', 2, (13, 0), (15, 0), 90), (''W'', 2, (10, 0), (11, 0), 60)] \<and>
   addMinutes (13, 0) 90 = (14, 30) \<and>
   calculateNewEndTime newStartTime oldStartTime itinerary = addMinutes newStartTime 120"
  by (simp add: io_defs read_defs apply_defs world_defs truthy_def Let_def)
section \<open>The editor\<close>

subsection \<open>The re-flow of a day\<close>

text \<open>
  Claim C7 on a concrete day, in the order X, P, Z with the window starting at 10:00: X
  (120 minutes) is placed at 10:00-12:00; P is pinned at 09:00-09:30, so it is skipped
  and the cursor is set to 09:30, before the end of X; Z (60 minutes) is then placed at
  09:30-10:30, inside X. With the cursor \<open>max(cursor, item.end)\<close> of the stated policy Z
  is placed at 12:00-13:00.
\<close>

theorem reflow_moves_cursor_back:
  "fst (recalculateDayTimes 1 1 (world_with reflow_items [])) = Inr () \<and>
   window_start example_preferences = (10, 0) \<and>
   schedule (world_with reflow_items [])
     = [(''X'', 1, (10, 0), (12, 0), 120), (''P'', 1, (9, 0), (9, 30), 30),
        (''Z'', 1, (12, 0), (13, 0), 60)] \<and>
   map is_pinned reflow_items = [False, True, False] \<and>
   schedule (snd (recalculateDayTimes 1 1 (world_with reflow_items [])))
     = [(''X'', 1, (10, 0), (12, 0), 120), (''P'', 1, (9, 0), (9, 30), 30),
        (''Z'', 1, (9, 30), (10, 30), 60)] \<and>
   map (\<lambda>i. (name i, day i, start_time i, end_time i, duration_minutes i))
       (stated_reflow reflow_items (10, 0))
     = [(''X'', 1, (10, 0), (12, 0), 120), (''P'', 1, (9, 0), (9, 30), 30),
        (''Z'', 1, (12, 0), (13, 0), 60)]"
  by (simp add: recalculateDayTimes_def io_defs read_defs apply_defs world_defs truthy_def
        Let_def time_less_def)

subsection \<open>The snapshots of the editor\<close>

lemma snapshots_items [simp]:
  "snapshots_of_current t0 tripId (t\<lparr>itinerary_items := its\<rparr>)
     = snapshots_of_current t0 tripId t"
  by (simp add: snapshots_of_current_def)

lemma snapshots_start: "snapshots_of_current t0 tripId t0"
  by (simp add: snapshots_of_current_def)

lemma snapshots_append:
  assumes "snapshots_of_current t0 tripId t" "version_trip_id row = tripId"
      "current_version t tripId = Some (version_no row)"
  shows "snapshots_of_current t0 tripId
           (t\<lparr>itinerary_versions := itinerary_versions t @ [row]\<rparr>)"
proof -
  from assms(1) have i: "itineraries t = itineraries t0"
    and tk: "take (length (itinerary_versions t0)) (itinerary_versions t) = itinerary_versions t0"
    and dr: "\<forall>r \<in> set (drop (length (itinerary_versions t0)) (itinerary_versions t)).
         version_trip_id r = tripId \<and> current_version t0 tripId = Some (version_no r)"
    by (simp_all add: snapshots_of_current_def)
  from tk have len: "length (itinerary_versions t0) \<le> length (itinerary_versions t)"
    by (metis length_take min.cobounded1)
  from i have cv: "current_version t tripId = current_version t0 tripId"
    by (simp add: current_version_def)
  show ?thesis
    using i tk dr len cv assms(2,3)
    by (auto simp: snapshots_of_current_def)
qed

lemma read_itinerary_version:
  "read_itinerary t tid = Inr (Some it) \<Longrightarrow> current_version t tid = Some (version it)"
  by (auto simp: read_itinerary_def current_version_def Let_def split: list.splits sum.splits)

lemma keeps_update_items [inv]: "keeps (snapshots_of_current t0 tripId) (update_items c f)"
  unfolding update_items_def by (rule keeps_execute) simp

lemma keeps_delete_items [inv]: "keeps (snapshots_of_current t0 tripId) (delete_items c)"
  unfolding delete_items_def by (rule keeps_execute) simp

lemma keeps_insert_item [inv]: "keeps (snapshots_of_current t0 tripId) (insert_item row)"
  unfolding insert_item_def by (rule keeps_query) (auto split: if_splits)

lemma keeps_createSnapshot [inv]:
  "keeps (snapshots_of_current t0 tripId) (createSnapshot tripId ct cb pv)"
  unfolding keeps_def createSnapshot_def Let_def
  apply (rule hoare_pre)
   apply (rule wp)+
  apply (auto simp: read_itinerary_version intro!: snapshots_append split: sum.splits option.splits)
  done

lemma keeps_createVersionSnapshot [inv]:
  "keeps (snapshots_of_current t0 tripId) (createVersionSnapshot tripId ct cb)"
  unfolding createVersionSnapshot_def by (rule inv)+

lemma reflow_Cons:
  "reflow (item # rest) currentTime =
     (if is_pinned item \<and> start_time item \<noteq> currentTime
      then reflow rest (end_time item)
      else io_bind (update_items (\<lambda>i. item_id i = item_id item)
                      (\<lambda>i. i\<lparr>start_time := currentTime,
                              end_time := addMinutes currentTime (duration_minutes item)\<rparr>))
             (\<lambda>u. reflow rest (addMinutes currentTime (duration_minutes item))))"
  by (rule ext) (simp add: io_bind_def Let_def split: prod.splits sum.splits)

lemma reflow_Nil: "reflow [] currentTime = io_return ()"
  by (rule ext) (simp add: io_return_def)

lemma keeps_reflow [inv]: "keeps (snapshots_of_current t0 tripId) (reflow its c)"
proof (induction its arbitrary: c)
  case Nil
  show ?case unfolding reflow_Nil by (rule inv)
next
  case (Cons item rest)
  show ?case unfolding reflow_Cons by (rule inv Cons.IH)+
qed

lemma keeps_recalculateDayTimes [inv]:
  "keeps (snapshots_of_current t0 tripId) (recalculateDayTimes tripId d)"
  unfolding recalculateDayTimes_def by (rule inv)+

lemma set_orders_Cons:
  "set_orders tripId (itemId # rest) i =
     io_bind (update_items (\<lambda>it. item_id it = itemId \<and> trip_id it = tripId)
                (\<lambda>it. it\<lparr>order_no := i\<rparr>))
       (\<lambda>u. set_orders tripId rest (i + 1))"
  by (rule ext) (simp add: io_bind_def split: prod.splits sum.splits)

lemma set_orders_Nil: "set_orders tripId [] i = io_return ()"
  by (rule ext) (simp add: io_return_def)

lemma keeps_set_orders [inv]: "keeps (snapshots_of_current t0 tripId) (set_orders tripId ids i)"
proof (induction ids arbitrary: i)
  case Nil
  show ?case unfolding set_orders_Nil by (rule inv)
next
  case (Cons a ids)
  show ?case unfolding set_orders_Cons by (rule inv Cons.IH)+
qed

lemma keeps_editor_op:
  "keeps (snapshots_of_current t0 tripId) (editor_op tripId changedBy ed)"
proof (cases ed)
  case (ReorderOp d ids)
  show ?thesis unfolding ReorderOp editor_op_def EditorOp.case reorderItems_def
    by (rule inv)+
next
  case (TogglePinOp i b)
  show ?thesis unfolding TogglePinOp editor_op_def EditorOp.case togglePin_def
    by (rule inv)+
next
  case (SetStartTimeOp i s)
  show ?thesis unfolding SetStartTimeOp editor_op_def EditorOp.case setStartTime_def Let_def
    by (rule inv)+
next
  case (AddOp d p s)
  show ?thesis unfolding AddOp editor_op_def EditorOp.case addItem_def Let_def
    by (rule inv)+
next
  case (RemoveOp i)
  show ?thesis unfolding RemoveOp editor_op_def EditorOp.case removeItem_def
    by (rule inv)+
qed

lemma editor_ops_keep:
  "snapshots_of_current t0 tripId (view w)
   \<Longrightarrow> snapshots_of_current t0 tripId (view (editor_ops tripId changedBy ops w))"
proof (induction ops arbitrary: w)
  case Nil
  then show ?case by simp
next
  case (Cons ed ops)
  from keepsD[OF keeps_editor_op Cons.prems]
  have "snapshots_of_current t0 tripId (view (snd (editor_op tripId changedBy ed w)))" .
  from Cons.IH[OF this] show ?case by simp
qed


lemma editor_ops_itineraries:
  "itineraries (store (editor_ops tripId changedBy ops w)) = itineraries (store w)"
proof -
  have "snapshots_of_current (store w) tripId (view w)"
    by (simp add: view_def snapshots_start)
  then have "snapshots_of_current (store w) tripId (view (editor_ops tripId changedBy ops w))"
    by (rule editor_ops_keep)
  then show ?thesis by (simp add: snapshots_of_current_def view_def)
qed

lemmas editor_defs = editor_op_def reorderItems_def togglePin_def setStartTime_def addItem_def
  removeItem_def createVersionSnapshot_def recalculateDayTimes_def createSnapshot_def
  insert_item_def update_items_def delete_items_def insert_version_def valid_time_def
  addMinutes_def js_rem_def group_days_def order_by_day_order_def order_by_order_def
  calculateDayCost_def calculateDayTravelTime_def calculateTotalCost_def poi_cost_def
  DEFAULT_BUFFER_MINUTES_def example_poi_A_def example_poi_B_def example_preferences_def
  editor_world_def editor_sequence_def read_itinerary_def read_preferences_def read_trip_def

lemma editor_world_run:
  "map (\<lambda>r. (version_trip_id r, version_no r, change_type r))
     (itinerary_versions (store (editor_ops 1 None editor_sequence editor_world)))
    = [(1, 1, Generate), (1, 1, Add), (1, 1, Reorder), (1, 1, Pin), (1, 1, TimeChange),
       (1, 1, Remove)]"
  by (simp add: editor_defs io_defs read_defs example_world_defs truthy_def Let_def)

text \<open>
  Claim C5, as the specification states it: after a sequence of editor operations the
  version numbers of the trip's snapshots are strictly increasing. The five operations
  each write a snapshot, and all of them carry version 1, as the snapshot of the
  generation does: the editor never changes the version of the itinerary.
\<close>

theorem editor_snapshots_counterexample:
  "map (\<lambda>r. (version_trip_id r, version_no r, change_type r))
     (itinerary_versions (store (editor_ops 1 None editor_sequence editor_world)))
    = [(1, 1, Generate), (1, 1, Add), (1, 1, Reorder), (1, 1, Pin), (1, 1, TimeChange),
       (1, 1, Remove)] \<and>
   \<not> sorted_wrt (<) (map version_no
        (itinerary_versions (store (editor_ops 1 None editor_sequence editor_world)))) \<and>
   current_version (store (editor_ops 1 None editor_sequence editor_world)) 1 = Some 1"
proof -
  let ?w' = "editor_ops 1 None editor_sequence editor_world"
  have "map (\<lambda>t. fst (snd t))
          (map (\<lambda>r. (version_trip_id r, version_no r, change_type r))
             (itinerary_versions (store ?w')))
        = [1, 1, 1, 1, 1, 1]"
    unfolding editor_world_run by simp
  then have "map version_no (itinerary_versions (store ?w')) = [1, 1, 1, 1, 1, 1]"
    by (simp add: comp_def)
  then have a: "\<not> sorted_wrt (<) (map version_no (itinerary_versions (store ?w')))"
    by simp
  have "current_version (store ?w') 1 = current_version (store editor_world) 1"
    by (simp add: current_version_def editor_ops_itineraries)
  also have "\<dots> = Some 1"
    by (simp add: current_version_def editor_world_def example_world_defs)
  finally show ?thesis using editor_world_run a by (intro conjI)
qed

text \<open>
  Claim C5, amended: a sequence of editor operations on a trip leaves the itinerary
  rows, and so the current version of the trip, as they were; it only appends rows to
  the version table, each a snapshot of the trip that carries the current version. So
  the snapshots a sequence writes all have the same version number, and if no snapshot
  of the trip had a number above the current version before, none has after.
\<close>

theorem editor_ops_snapshots:
  "itineraries (store (editor_ops tripId changedBy ops w)) = itineraries (store w) \<and>
   current_version (store (editor_ops tripId changedBy ops w)) tripId
     = current_version (store w) tripId \<and>
   take (length (itinerary_versions (store w)))
        (itinerary_versions (store (editor_ops tripId changedBy ops w)))
     = itinerary_versions (store w) \<and>
   (\<forall>r \<in> set (drop (length (itinerary_versions (store w)))
                   (itinerary_versions (store (editor_ops tripId changedBy ops w)))).
      version_trip_id r = tripId \<and> current_version (store w) tripId = Some (version_no r)) \<and>
   (\<forall>v. current_version (store w) tripId = Some v \<and>
        (\<forall>r \<in> set (itinerary_versions (store w)).
           version_trip_id r = tripId \<longrightarrow> version_no r \<le> v) \<longrightarrow>
        (\<forall>r \<in> set (itinerary_versions (store (editor_ops tripId changedBy ops w))).
           version_trip_id r = tripId \<longrightarrow> version_no r \<le> v))"
proof -
  let ?w' = "editor_ops tripId changedBy ops w"
  let ?n = "length (itinerary_versions (store w))"
  have "snapshots_of_current (store w) tripId (view w)"
    by (simp add: view_def snapshots_start)
  then have "snapshots_of_current (store w) tripId (view ?w')" by (rule editor_ops_keep)
  then have i: "itineraries (store ?w') = itineraries (store w)"
    and tk: "take ?n (itinerary_versions (store ?w')) = itinerary_versions (store w)"
    and dr: "\<forall>r \<in> set (drop ?n (itinerary_versions (store ?w'))).
         version_trip_id r = tripId \<and> current_version (store w) tripId = Some (version_no r)"
    by (simp_all add: snapshots_of_current_def view_def)
  from i have cv: "current_version (store ?w') tripId = current_version (store w) tripId"
    by (simp add: current_version_def)
  have "version_no r \<le> v"
    if v: "current_version (store w) tripId = Some v"
      and old: "\<forall>r \<in> set (itinerary_versions (store w)).
                  version_trip_id r = tripId \<longrightarrow> version_no r \<le> v"
      and r: "r \<in> set (itinerary_versions (store ?w'))" "version_trip_id r = tripId" for v r
  proof -
    have "set (itinerary_versions (store ?w'))
            = set (take ?n (itinerary_versions (store ?w')))
              \<union> set (drop ?n (itinerary_versions (store ?w')))"
      by (metis append_take_drop_id set_append)
    with r(1) tk consider "r \<in> set (itinerary_versions (store w))"
      | "r \<in> set (drop ?n (itinerary_versions (store ?w')))" by auto
    then show ?thesis
    proof cases
      case 1
      with old r(2) show ?thesis by blast
    next
      case 2
      with dr v show ?thesis by auto
    qed
  qed
  with i cv tk dr show ?thesis by blast
qed

theorem editor_ops_snapshots_witness:
  "current_version (store editor_world) 1 = Some 1 \<and>
   map version_no (itinerary_versions (store editor_world)) = [1] \<and>
   length (itinerary_versions (store (editor_ops 1 None editor_sequence editor_world))) = 6 \<and>
   itineraries (store (editor_ops 1 None editor_sequence editor_world))
     = itineraries (store editor_world) \<and>
   list_all (\<lambda>r. version_trip_id r = 1 \<and> version_no r = 1)
     (drop 1 (itinerary_versions (store (editor_ops 1 None editor_sequence editor_world)))) \<and>
   list_all (\<lambda>r. version_no r \<le> 1)
     (filter (\<lambda>r. version_trip_id r = 1)
        (itinerary_versions (store (editor_ops 1 None editor_sequence editor_world))))"
proof -
  let ?w' = "editor_ops 1 None editor_sequence editor_world"
  have cv: "current_version (store editor_world) 1 = Some 1"
    by (simp add: current_version_def editor_world_def example_world_defs)
  have old: "map version_no (itinerary_versions (store editor_world)) = [1]"
    by (simp add: editor_world_def example_world_defs)
  then have len: "length (itinerary_versions (store editor_world)) = 1"
    by (metis length_map list.size(3,4) One_nat_def add.left_neutral)
  have bound: "\<forall>r \<in> set (itinerary_versions (store editor_world)).
                 version_trip_id r = 1 \<longrightarrow> version_no r \<le> 1"
    by (simp add: editor_world_def example_world_defs)
  have six: "length (itinerary_versions (store ?w')) = 6"
    using arg_cong[OF editor_world_run, of length] by simp
  note inst = editor_ops_snapshots[of 1 None editor_sequence editor_world]
  from inst have a: "itineraries (store ?w') = itineraries (store editor_world)" by blast
  from inst have "\<forall>r \<in> set (drop (length (itinerary_versions (store editor_world)))
                   (itinerary_versions (store ?w'))).
      version_trip_id r = 1 \<and> current_version (store editor_world) 1 = Some (version_no r)"
    by blast
  then have b: "\<forall>r \<in> set (drop 1 (itinerary_versions (store ?w'))).
      version_trip_id r = 1 \<and> version_no r = 1"
    unfolding len cv by auto
  from inst cv bound have c: "\<forall>r \<in> set (itinerary_versions (store ?w')).
      version_trip_id r = 1 \<longrightarrow> version_no r \<le> 1" by blast
  from b have b': "list_all (\<lambda>r. version_trip_id r = 1 \<and> version_no r = 1)
     (drop 1 (itinerary_versions (store ?w')))"
    by (simp add: list_all_iff)
  from c have c': "list_all (\<lambda>r. version_no r \<le> 1)
     (filter (\<lambda>r. version_trip_id r = 1) (itinerary_versions (store ?w')))"
    by (simp add: list_all_iff)
  from cv old six a b' c' show ?thesis by (intro conjI)
qed

section \<open>Pinned items\<close>

subsection \<open>Pinned items in the generator\<close>





subsection \<open>Pinned items in the itinerary that is read\<close>











subsection \<open>What a generation writes\<close>



















subsection \<open>Where the pinned items of a generation come from\<close>











subsection \<open>The trip with a pinned item\<close>










end
